theory Spec2Isabelle
  imports Main
begin

section \<open>Python values carried by the SDK\<close>

text \<open>
  The SDK in \<^verbatim>\<open>runpod/endpoint/sxwl.py\<close> handles the values that \<^verbatim>\<open>response.json()\<close>
  and \<^verbatim>\<open>json.loads\<close> produce: \<^verbatim>\<open>None\<close>, booleans, integers, strings, lists and
  dictionaries.  A dictionary is an association list read with \<open>map_of\<close>; the order of
  the pairs is the insertion order that iteration follows.  A string is the list of the
  bytes of its UTF-8 encoding, so that equal strings are equal lists.  JSON numbers with
  a fraction are not part of the model.
\<close>

datatype json =
    JNull
  | JBool bool
  | JInt int
  | JStr string
  | JList "json list"
  | JObj "(string \<times> json) list"

text \<open>
  The exceptions the code can raise.  \<^verbatim>\<open>TimeoutError\<close>, \<^verbatim>\<open>RuntimeError\<close> and
  \<^verbatim>\<open>ValueError\<close> carry a message; the message literals of the source are Chinese text
  and are named here:
  \<^item> \<open>Msg_service_timeout\<close>: the \<^verbatim>\<open>TimeoutError\<close> at the end of \<^verbatim>\<open>_wait_for_ready\<close>;
  \<^item> \<open>Msg_finetune_timeout\<close>: the \<^verbatim>\<open>TimeoutError\<close> at the end of \<^verbatim>\<open>_wait_for_completion\<close>;
  \<^item> \<open>Msg_finetune_failed\<close>: the \<^verbatim>\<open>RuntimeError\<close> raised in \<^verbatim>\<open>_wait_for_completion\<close>;
  \<^item> \<open>Msg_adapter_not_found\<close>: the \<^verbatim>\<open>ValueError\<close> at the end of \<^verbatim>\<open>_get_adapter_id\<close>;
  \<^item> \<open>Msg_negative_sleep\<close>: the \<^verbatim>\<open>ValueError\<close> of \<^verbatim>\<open>time.sleep\<close> on a negative length.

  \<open>RequestException\<close> stands for whatever \<^verbatim>\<open>requests.request\<close> or
  \<^verbatim>\<open>raise_for_status\<close> raises (no connection, a 4xx or 5xx status).
\<close>

datatype message =
    Msg_service_timeout
  | Msg_finetune_timeout
  | Msg_finetune_failed
  | Msg_adapter_not_found
  | Msg_negative_sleep

datatype error =
    RequestException
  | JSONDecodeError
  | UnicodeDecodeError
  | KeyError
  | TypeError
  | AttributeError
  | TimeoutError message
  | RuntimeError message
  | ValueError message

subsection \<open>Operators of Python on these values\<close>

text \<open>\<^verbatim>\<open>a == b\<close>.  A boolean equals the integer 0 or 1; dictionaries are equal when they
  have the same keys with equal values.\<close>

fun py_eq :: "json \<Rightarrow> json \<Rightarrow> bool"
  and py_eq_list :: "json list \<Rightarrow> json list \<Rightarrow> bool"
  and py_eq_items :: "(string \<times> json) list \<Rightarrow> (string \<times> json) list \<Rightarrow> bool"
where
  "py_eq JNull JNull = True"
| "py_eq (JBool a) (JBool b) = (a = b)"
| "py_eq (JBool a) (JInt i) = (i = (if a then 1 else 0))"
| "py_eq (JInt i) (JBool b) = (i = (if b then 1 else 0))"
| "py_eq (JInt i) (JInt j) = (i = j)"
| "py_eq (JStr s) (JStr t) = (s = t)"
| "py_eq (JList xs) (JList ys) = py_eq_list xs ys"
| "py_eq (JObj a) (JObj b) = (set (map fst a) = set (map fst b) \<and> py_eq_items a b)"
| "py_eq _ _ = False"
| "py_eq_list [] [] = True"
| "py_eq_list (x # xs) (y # ys) = (py_eq x y \<and> py_eq_list xs ys)"
| "py_eq_list _ _ = False"
| "py_eq_items [] b = True"
| "py_eq_items ((k, v) # a) b =
     ((case map_of b k of None \<Rightarrow> False | Some v' \<Rightarrow> py_eq v v') \<and> py_eq_items a b)"

text \<open>Truth value of a value in a condition (\<^verbatim>\<open>if x\<close>, \<^verbatim>\<open>not x\<close>).\<close>

fun py_truthy :: "json \<Rightarrow> bool" where
  "py_truthy JNull = False"
| "py_truthy (JBool b) = b"
| "py_truthy (JInt i) = (i \<noteq> 0)"
| "py_truthy (JStr s) = (s \<noteq> [])"
| "py_truthy (JList xs) = (xs \<noteq> [])"
| "py_truthy (JObj kvs) = (kvs \<noteq> [])"

text \<open>\<^verbatim>\<open>x[key]\<close> with a string key: only a dictionary has string subscripts.\<close>

fun py_getitem :: "json \<Rightarrow> string \<Rightarrow> error + json" where
  "py_getitem (JObj kvs) k = (case map_of kvs k of None \<Rightarrow> Inl KeyError | Some v \<Rightarrow> Inr v)"
| "py_getitem _ k = Inl TypeError"

text \<open>\<^verbatim>\<open>x.get(key, default)\<close>: only a dictionary has the method.\<close>

fun py_get :: "json \<Rightarrow> string \<Rightarrow> json \<Rightarrow> error + json" where
  "py_get (JObj kvs) k d = (case map_of kvs k of None \<Rightarrow> Inr d | Some v \<Rightarrow> Inr v)"
| "py_get _ k d = Inl AttributeError"

text \<open>The elements a \<^verbatim>\<open>for\<close> loop visits: the elements of a list, the keys of a
  dictionary, the characters of a string; anything else is not iterable.  The loops of
  the source subscript every element with a string key, which raises on the first
  element of a string whatever the number of its characters is.\<close>

fun py_iter :: "json \<Rightarrow> error + json list" where
  "py_iter (JList xs) = Inr xs"
| "py_iter (JObj kvs) = Inr (map (\<lambda>kv. JStr (fst kv)) kvs)"
| "py_iter (JStr s) = Inr (map (\<lambda>c. JStr [c]) s)"
| "py_iter _ = Inl TypeError"

text \<open>\<^verbatim>\<open>a + b\<close>: lists and strings concatenate, booleans and integers add.\<close>

fun py_int :: "json \<Rightarrow> int option" where
  "py_int (JInt i) = Some i"
| "py_int (JBool b) = Some (if b then 1 else 0)"
| "py_int _ = None"

fun py_add :: "json \<Rightarrow> json \<Rightarrow> error + json" where
  "py_add (JList xs) (JList ys) = Inr (JList (xs @ ys))"
| "py_add (JStr s) (JStr t) = Inr (JStr (s @ t))"
| "py_add a b =
     (case (py_int a, py_int b) of
        (Some i, Some j) \<Rightarrow> Inr (JInt (i + j))
      | _ \<Rightarrow> Inl TypeError)"

text \<open>\<^verbatim>\<open>len(x)\<close>; the source uses it in a printed message only, so what matters is
  whether it raises.\<close>

fun py_len :: "json \<Rightarrow> error + nat" where
  "py_len (JList xs) = Inr (length xs)"
| "py_len (JStr s) = Inr (length s)"
| "py_len (JObj kvs) = Inr (length kvs)"
| "py_len _ = Inl TypeError"

subsection \<open>Sets of Python values\<close>

text \<open>
  The two sets of \<^verbatim>\<open>resources_to_cleanup\<close> hold whatever the server returned as an
  identifier.  A Python set holds one element of each class of \<^verbatim>\<open>==\<close>, and refuses
  lists and dictionaries, which have no hash.
\<close>

fun hashable :: "json \<Rightarrow> bool" where
  "hashable (JList xs) = False"
| "hashable (JObj kvs) = False"
| "hashable _ = True"

definition set_mem :: "json \<Rightarrow> json list \<Rightarrow> bool" where
  "set_mem v S = list_ex (\<lambda>x. py_eq x v) S"

definition set_add :: "json \<Rightarrow> json list \<Rightarrow> error + json list" where
  "set_add v S =
     (if \<not> hashable v then Inl TypeError
      else if set_mem v S then Inr S
      else Inr (S @ [v]))"

definition set_discard :: "json \<Rightarrow> json list \<Rightarrow> error + json list" where
  "set_discard v S =
     (if \<not> hashable v then Inl TypeError
      else Inr (filter (\<lambda>x. \<not> py_eq x v) S))"


text \<open>Sequencing of steps that may raise: the first exception ends the chain.\<close>

fun and_then :: "error + 'a \<Rightarrow> ('a \<Rightarrow> error + 'b) \<Rightarrow> error + 'b" where
  "and_then (Inl e) f = Inl e"
| "and_then (Inr x) f = f x"

section \<open>Configuration\<close>

text \<open>
  \<open>api_key\<close> is the value of \<^verbatim>\<open>runpod.api_key\<close>: \<^verbatim>\<open>None\<close>, a \<^verbatim>\<open>str\<close> or a
  \<^verbatim>\<open>bytes\<close> object.
\<close>

datatype api_key = KeyNone | KeyStr string | KeyBytes string

record APIConfig =
  base_url :: string
  token :: api_key
  headers :: "(string \<times> string) list"

record SXWLClient =
  config :: APIConfig

text \<open>The text that an f-string inserts for the token; a \<^verbatim>\<open>bytes\<close> token reaches the
  f-string only when it is empty, and \<^verbatim>\<open>str(b'')\<close> is the three characters
  \<^verbatim>\<open>b''\<close>.\<close>

fun format_token :: "api_key \<Rightarrow> string" where
  "format_token KeyNone = ''None''"
| "format_token (KeyStr s) = s"
| "format_token (KeyBytes b) = [CHR ''b'', CHR 0x27] @ b @ [CHR 0x27]"

text \<open>
  \<^verbatim>\<open>APIConfig.create_default\<close>, given the two module attributes of \<^verbatim>\<open>runpod\<close> that it
  imports.  \<open>decode\<close> is \<^verbatim>\<open>bytes.decode('utf-8')\<close> of the Python
  library, \<open>None\<close> where it raises.  An empty \<^verbatim>\<open>bytes\<close> object is falsy and is not
  decoded.
\<close>

definition create_default ::
  "(string \<Rightarrow> string option) \<Rightarrow> api_key \<Rightarrow> string \<Rightarrow> error + APIConfig" where
  "create_default decode api_key endpoint_url_base =
     and_then
       (case api_key of
          KeyBytes b \<Rightarrow>
            (if b \<noteq> [] then
               (case decode b of None \<Rightarrow> Inl UnicodeDecodeError | Some s \<Rightarrow> Inr (KeyStr s))
             else Inr (KeyBytes b))
        | k \<Rightarrow> Inr k)
       (\<lambda>tok. Inr \<lparr>base_url = endpoint_url_base,
                   token = tok,
                   headers =
                     [(''Accept'', ''application/json, text/plain, */*''),
                      (''Authorization'', ''Bearer '' @ format_token tok),
                      (''Content-Type'', ''application/json''),
                      (''Origin'', endpoint_url_base),
                      (''Connection'', ''keep-alive''),
                      (''User-Agent'', ''github-actions'')]\<rparr>)"

section \<open>Process state and the remote platform\<close>

text \<open>The keyword arguments that the modelled calls pass on to \<^verbatim>\<open>requests.request\<close>.\<close>

datatype kwargs =
    No_kwargs
  | Json_kw json
  | Params_kw "(string \<times> json) list"

record request =
  request_method :: string
  request_url :: string
  request_headers :: "(string \<times> string) list"
  request_kwargs :: kwargs

text \<open>A response that passed \<^verbatim>\<open>raise_for_status\<close>; its body parses as JSON or does not.\<close>

datatype response = Response "json option"

fun response_json :: "response \<Rightarrow> error + json" where
  "response_json (Response None) = Inl JSONDecodeError"
| "response_json (Response (Some j)) = Inr j"

text \<open>
  The state outside the controllers: the two module attributes of \<^verbatim>\<open>runpod\<close> that
  \<^verbatim>\<open>create_default\<close> imports, the remote platform, the requests sent so far (oldest
  first), the lengths of the calls of \<^verbatim>\<open>time.sleep\<close> so far, and the two sets of the
  global \<^verbatim>\<open>resources_to_cleanup\<close>.  The platform is any function from the number of
  requests already sent and the request to its outcome; \<open>None\<close> is an exception raised
  by \<^verbatim>\<open>requests.request\<close> or by \<^verbatim>\<open>raise_for_status\<close>.  Output written with
  \<^verbatim>\<open>print\<close> is not part of the state.
\<close>

record world =
  api_key :: api_key
  endpoint_url_base :: string
  server :: "nat \<Rightarrow> request \<Rightarrow> response option"
  sent :: "request list"
  slept :: "int list"
  inference_services :: "json list"
  finetune_jobs :: "json list"

section \<open>Transport and resource client\<close>

text \<open>The arguments that \<^verbatim>\<open>_make_request\<close> hands to \<^verbatim>\<open>requests.request\<close>.\<close>

definition build_request :: "SXWLClient \<Rightarrow> string \<Rightarrow> string \<Rightarrow> kwargs \<Rightarrow> request" where
  "build_request c meth endpoint kw =
     \<lparr>request_method = meth,
      request_url = base_url (config c) @ ''/api'' @ endpoint,
      request_headers = headers (config c),
      request_kwargs = kw\<rparr>"

text \<open>\<^verbatim>\<open>SXWLClient._make_request\<close>: the request is sent, then the platform answers.\<close>

definition make_request ::
  "SXWLClient \<Rightarrow> string \<Rightarrow> string \<Rightarrow> kwargs \<Rightarrow> world \<Rightarrow> (error + response) \<times> world" where
  "make_request c meth endpoint kw w =
     (let req = build_request c meth endpoint kw
      in ((case server w (length (sent w)) req of
             None \<Rightarrow> Inl RequestException
           | Some r \<Rightarrow> Inr r),
          w\<lparr>sent := sent w @ [req]\<rparr>))"

text \<open>The body of the \<^verbatim>\<open>try\<close> block of \<^verbatim>\<open>get_models\<close>; \<^verbatim>\<open>len(models)\<close> is evaluated for
  the message that is printed.\<close>

definition get_models_try :: "SXWLClient \<Rightarrow> world \<Rightarrow> (error + json) \<times> world" where
  "get_models_try c w =
     (case make_request c ''GET'' ''/resource/models'' No_kwargs w of
        (r, w1) \<Rightarrow>
          (and_then r (\<lambda>resp.
           and_then (response_json resp) (\<lambda>data.
           and_then (py_get data ''public_list'' (JList [])) (\<lambda>pub.
           and_then (py_get data ''user_list'' (JList [])) (\<lambda>usr.
           and_then (py_add pub usr) (\<lambda>models.
           and_then (py_len models) (\<lambda>n. Inr models)))))),
           w1))"

text \<open>\<^verbatim>\<open>SXWLClient.get_models\<close>: \<^verbatim>\<open>except Exception\<close> turns every exception of the body
  into the empty list.\<close>

definition get_models :: "SXWLClient \<Rightarrow> world \<Rightarrow> (error + json) \<times> world" where
  "get_models c w =
     (case get_models_try c w of
        (Inl e, w1) \<Rightarrow> (Inr (JList []), w1)
      | (Inr models, w1) \<Rightarrow> (Inr models, w1))"

text \<open>\<^verbatim>\<open>SXWLClient.delete_inference_service\<close>: the set is changed after the request
  succeeded; an exception of the \<^verbatim>\<open>try\<close> block is printed and dropped.\<close>

definition delete_inference_service ::
  "SXWLClient \<Rightarrow> string \<Rightarrow> world \<Rightarrow> (error + unit) \<times> world" where
  "delete_inference_service c service_name w =
     (case make_request c ''DELETE'' ''/job/inference''
             (Params_kw [(''service_name'', JStr service_name)]) w of
        (Inl e, w1) \<Rightarrow> (Inr (), w1)
      | (Inr resp, w1) \<Rightarrow>
          (case set_discard (JStr service_name) (inference_services w1) of
             Inl e \<Rightarrow> (Inr (), w1)
           | Inr S \<Rightarrow> (Inr (), w1\<lparr>inference_services := S\<rparr>)))"

text \<open>\<^verbatim>\<open>SXWLClient.delete_finetune_job\<close>.\<close>

definition delete_finetune_job ::
  "SXWLClient \<Rightarrow> string \<Rightarrow> world \<Rightarrow> (error + unit) \<times> world" where
  "delete_finetune_job c finetune_id w =
     (case make_request c ''POST'' ''/userJob/job_del''
             (Json_kw (JObj [(''job_id'', JStr finetune_id)])) w of
        (Inl e, w1) \<Rightarrow> (Inr (), w1)
      | (Inr resp, w1) \<Rightarrow>
          (case set_discard (JStr finetune_id) (finetune_jobs w1) of
             Inl e \<Rightarrow> (Inr (), w1)
           | Inr S \<Rightarrow> (Inr (), w1\<lparr>finetune_jobs := S\<rparr>)))"

section \<open>Inference service controller\<close>

text \<open>\<^verbatim>\<open>service_name\<close> and \<^verbatim>\<open>api_endpoint\<close> start as \<^verbatim>\<open>None\<close> and then hold what the
  server sent, of whatever type.\<close>

record InferenceService =
  client :: SXWLClient
  service_name :: json
  api_endpoint :: json

definition new_InferenceService :: "SXWLClient \<Rightarrow> InferenceService" where
  "new_InferenceService c = \<lparr>client = c, service_name = JNull, api_endpoint = JNull\<rparr>"

text \<open>\<^verbatim>\<open>InferenceService.deploy\<close>.  The attribute is assigned before the name is added to
  the set, so it is kept when \<^verbatim>\<open>add\<close> raises.\<close>

definition deploy ::
  "InferenceService \<Rightarrow> json \<Rightarrow> world \<Rightarrow> (error + unit) \<times> InferenceService \<times> world" where
  "deploy svc model_config w =
     (case make_request (client svc) ''POST'' ''/job/inference'' (Json_kw model_config) w of
        (r, w1) \<Rightarrow>
          (case and_then r (\<lambda>resp.
                and_then (response_json resp) (\<lambda>j. py_getitem j ''service_name'')) of
             Inl e \<Rightarrow> (Inl e, svc, w1)
           | Inr name \<Rightarrow>
               (case set_add name (inference_services w1) of
                  Inl e \<Rightarrow> (Inl e, svc\<lparr>service_name := name\<rparr>, w1)
                | Inr S \<Rightarrow>
                    (Inr (), svc\<lparr>service_name := name\<rparr>, w1\<lparr>inference_services := S\<rparr>))))"

text \<open>The \<^verbatim>\<open>for\<close> loop of \<^verbatim>\<open>InferenceService.status\<close> over the items of the list.\<close>

fun status_loop :: "json \<Rightarrow> json list \<Rightarrow> error + json" where
  "status_loop name [] = Inr (JStr ''unknown'')"
| "status_loop name (item # items) =
     and_then (py_getitem item ''service_name'') (\<lambda>n.
       if py_eq n name then py_getitem item ''status''
       else status_loop name items)"

text \<open>\<^verbatim>\<open>InferenceService.status\<close>.\<close>

definition status :: "InferenceService \<Rightarrow> world \<Rightarrow> (error + json) \<times> world" where
  "status svc w =
     (case make_request (client svc) ''GET'' ''/job/inference'' No_kwargs w of
        (r, w1) \<Rightarrow>
          (and_then r (\<lambda>resp.
           and_then (response_json resp) (\<lambda>status_json.
           and_then (py_get status_json ''data'' (JList [])) (\<lambda>d.
           and_then (py_iter d) (\<lambda>items.
           status_loop (service_name svc) items)))),
           w1))"

text \<open>The \<^verbatim>\<open>for\<close> loop of \<^verbatim>\<open>InferenceService.output\<close>.\<close>

fun output_loop :: "json \<Rightarrow> json list \<Rightarrow> error + json" where
  "output_loop name [] = Inr (JObj [(''status'', JStr ''unknown'')])"
| "output_loop name (item # items) =
     and_then (py_getitem item ''service_name'') (\<lambda>n.
       if py_eq n name then
         and_then (py_getitem item ''status'') (\<lambda>s.
           if py_eq s (JStr ''running'') then
             and_then (py_getitem item ''api'') (\<lambda>a. Inr (JObj [(''chat_url'', a)]))
           else Inr (JObj [(''status'', s)]))
       else output_loop name items)"

text \<open>\<^verbatim>\<open>InferenceService.output\<close> (\<open>output\<close> is a reserved word of Isabelle).\<close>

definition service_output :: "InferenceService \<Rightarrow> world \<Rightarrow> (error + json) \<times> world" where
  "service_output svc w =
     (case make_request (client svc) ''GET'' ''/job/inference'' No_kwargs w of
        (r, w1) \<Rightarrow>
          (and_then r (\<lambda>resp.
           and_then (response_json resp) (\<lambda>status_json.
           and_then (py_get status_json ''data'' (JList [])) (\<lambda>d.
           and_then (py_iter d) (\<lambda>items.
           output_loop (service_name svc) items)))),
           w1))"

text \<open>
  The inner \<^verbatim>\<open>for\<close> loop of \<^verbatim>\<open>_wait_for_ready\<close>: \<open>Some a\<close> when the loop reaches the
  \<^verbatim>\<open>return\<close> with \<^verbatim>\<open>item['api']\<close> equal to \<open>a\<close>, \<open>None\<close> when it ends by \<^verbatim>\<open>break\<close> or
  by running out of items.
\<close>

fun ready_loop :: "json \<Rightarrow> json list \<Rightarrow> error + json option" where
  "ready_loop name [] = Inr None"
| "ready_loop name (item # items) =
     and_then (py_getitem item ''service_name'') (\<lambda>n.
       if py_eq n name then
         and_then (py_getitem item ''status'') (\<lambda>s.
           if py_eq s (JStr ''running'') then
             and_then (py_getitem item ''api'') (\<lambda>a. Inr (Some a))
           else Inr None)
       else ready_loop name items)"

text \<open>
  The outer loop of \<^verbatim>\<open>_wait_for_ready\<close>; the first argument counts the attempts that
  \<^verbatim>\<open>range(max_retries)\<close> still has.  \<^verbatim>\<open>time.sleep\<close> raises on a negative length.
\<close>

fun wait_for_ready_loop ::
  "nat \<Rightarrow> int \<Rightarrow> InferenceService \<Rightarrow> world \<Rightarrow> (error + unit) \<times> InferenceService \<times> world" where
  "wait_for_ready_loop 0 retry_interval svc w = (Inl (TimeoutError Msg_service_timeout), svc, w)"
| "wait_for_ready_loop (Suc n) retry_interval svc w =
     (case make_request (client svc) ''GET'' ''/job/inference'' No_kwargs w of
        (r, w1) \<Rightarrow>
          (case and_then r (\<lambda>resp.
                and_then (response_json resp) (\<lambda>status_json.
                and_then (py_get status_json ''data'' (JList [])) (\<lambda>d.
                and_then (py_iter d) (\<lambda>items.
                ready_loop (service_name svc) items)))) of
             Inl e \<Rightarrow> (Inl e, svc, w1)
           | Inr (Some a) \<Rightarrow> (Inr (), svc\<lparr>api_endpoint := a\<rparr>, w1)
           | Inr None \<Rightarrow>
               (if retry_interval < 0 then (Inl (ValueError Msg_negative_sleep), svc, w1)
                else wait_for_ready_loop n retry_interval svc
                       (w1\<lparr>slept := slept w1 @ [retry_interval]\<rparr>))))"

text \<open>\<^verbatim>\<open>InferenceService._wait_for_ready\<close>; \<^verbatim>\<open>range\<close> of a number below one is empty.\<close>

definition wait_for_ready ::
  "int \<Rightarrow> int \<Rightarrow> InferenceService \<Rightarrow> world \<Rightarrow> (error + unit) \<times> InferenceService \<times> world" where
  "wait_for_ready max_retries retry_interval svc w =
     wait_for_ready_loop (nat max_retries) retry_interval svc w"

text \<open>\<^verbatim>\<open>InferenceService.wait_until_complete\<close>, which waits with the default arguments
  \<^verbatim>\<open>max_retries = 60\<close> and \<^verbatim>\<open>retry_interval = 30\<close>.\<close>

definition wait_until_complete ::
  "InferenceService \<Rightarrow> world \<Rightarrow> (error + json) \<times> InferenceService \<times> world" where
  "wait_until_complete svc w =
     (case wait_for_ready 60 30 svc w of
        (Inl e, svc1, w1) \<Rightarrow> (Inl e, svc1, w1)
      | (Inr u, svc1, w1) \<Rightarrow>
          (Inr (JObj [(''service_name'', service_name svc1),
                      (''api_endpoint'', api_endpoint svc1),
                      (''status'', JStr ''running'')]),
           svc1, w1))"

section \<open>Fine-tune job controller\<close>

record FinetuneJob =
  job_client :: SXWLClient
  job_id :: json
  adapter_id :: json

text \<open>
  The inner \<^verbatim>\<open>for\<close> loop of \<^verbatim>\<open>_wait_for_completion\<close>: \<open>True\<close> when it reaches the
  \<^verbatim>\<open>return\<close>, \<open>False\<close> when it ends by \<^verbatim>\<open>break\<close> or by running out of jobs, the
  \<^verbatim>\<open>RuntimeError\<close> when the status is one of \<^verbatim>\<open>['failed', 'error']\<close>.
\<close>

fun completion_loop :: "json \<Rightarrow> json list \<Rightarrow> error + bool" where
  "completion_loop jid [] = Inr False"
| "completion_loop jid (job # jobs) =
     and_then (py_getitem job ''jobName'') (\<lambda>n.
       if py_eq n jid then
         and_then (py_getitem job ''status'') (\<lambda>status.
           if py_eq status (JStr ''succeeded'') then Inr True
           else if py_eq status (JStr ''failed'') \<or> py_eq status (JStr ''error'')
             then Inl (RuntimeError Msg_finetune_failed)
           else Inr False)
       else completion_loop jid jobs)"

text \<open>The outer loop of \<^verbatim>\<open>_wait_for_completion\<close>.  \<^verbatim>\<open>response.json()\<close> is called once for
  the message that is printed and once for the loop, with the same outcome.\<close>

fun wait_for_completion_loop ::
  "nat \<Rightarrow> int \<Rightarrow> FinetuneJob \<Rightarrow> world \<Rightarrow> (error + unit) \<times> FinetuneJob \<times> world" where
  "wait_for_completion_loop 0 retry_interval job w =
     (Inl (TimeoutError Msg_finetune_timeout), job, w)"
| "wait_for_completion_loop (Suc n) retry_interval job w =
     (case make_request (job_client job) ''GET'' ''/job/training''
             (Params_kw [(''current'', JInt 1), (''size'', JInt 1000)]) w of
        (r, w1) \<Rightarrow>
          (case and_then r (\<lambda>resp.
                and_then (response_json resp) (\<lambda>j.
                and_then (py_get j ''content'' (JList [])) (\<lambda>d.
                and_then (py_iter d) (\<lambda>jobs.
                completion_loop (job_id job) jobs)))) of
             Inl e \<Rightarrow> (Inl e, job, w1)
           | Inr True \<Rightarrow> (Inr (), job, w1)
           | Inr False \<Rightarrow>
               (if retry_interval < 0 then (Inl (ValueError Msg_negative_sleep), job, w1)
                else wait_for_completion_loop n retry_interval job
                       (w1\<lparr>slept := slept w1 @ [retry_interval]\<rparr>))))"

text \<open>\<^verbatim>\<open>FinetuneJob._wait_for_completion\<close>.\<close>

definition wait_for_completion ::
  "int \<Rightarrow> int \<Rightarrow> FinetuneJob \<Rightarrow> world \<Rightarrow> (error + unit) \<times> FinetuneJob \<times> world" where
  "wait_for_completion max_retries retry_interval job w =
     wait_for_completion_loop (nat max_retries) retry_interval job w"

text \<open>
  The \<^verbatim>\<open>for\<close> loop of \<^verbatim>\<open>_get_adapter_id\<close>: \<open>Some i\<close> when it reaches the \<^verbatim>\<open>return\<close> with
  \<^verbatim>\<open>adapter['id']\<close> equal to \<open>i\<close>, \<open>None\<close> when it runs out of adapters.  \<open>loads\<close> is
  \<^verbatim>\<open>json.loads\<close> of the Python library on a string, \<open>None\<close> where it raises
  \<^verbatim>\<open>JSONDecodeError\<close>, the one exception that the \<^verbatim>\<open>except\<close> clause catches;
  \<^verbatim>\<open>json.loads\<close> of a value that is not a string raises \<^verbatim>\<open>TypeError\<close>.
\<close>

fun adapter_loop :: "(string \<Rightarrow> json option) \<Rightarrow> json \<Rightarrow> json list \<Rightarrow> error + json option" where
  "adapter_loop loads jid [] = Inr None"
| "adapter_loop loads jid (adapter # adapters) =
     and_then (py_get adapter ''meta'' (JStr ''{}'')) (\<lambda>m.
       case m of
         JStr s \<Rightarrow>
           (case loads s of
              None \<Rightarrow> adapter_loop loads jid adapters
            | Some meta \<Rightarrow>
                and_then (py_get meta ''finetune_id'' JNull) (\<lambda>f.
                  if py_eq f jid then
                    and_then (py_getitem adapter ''id'') (\<lambda>i. Inr (Some i))
                  else adapter_loop loads jid adapters))
       | _ \<Rightarrow> Inl TypeError)"

text \<open>\<^verbatim>\<open>FinetuneJob._get_adapter_id\<close>.\<close>

definition get_adapter_id ::
  "(string \<Rightarrow> json option) \<Rightarrow> FinetuneJob \<Rightarrow> world \<Rightarrow> (error + unit) \<times> FinetuneJob \<times> world" where
  "get_adapter_id loads job w =
     (case make_request (job_client job) ''GET'' ''/resource/adapters'' No_kwargs w of
        (r, w1) \<Rightarrow>
          (case and_then r (\<lambda>resp.
                and_then (response_json resp) (\<lambda>j.
                and_then (py_get j ''user_list'' (JList [])) (\<lambda>d.
                and_then (py_iter d) (\<lambda>adapters.
                adapter_loop loads (job_id job) adapters)))) of
             Inl e \<Rightarrow> (Inl e, job, w1)
           | Inr (Some i) \<Rightarrow> (Inr (), job\<lparr>adapter_id := i\<rparr>, w1)
           | Inr None \<Rightarrow> (Inl (ValueError Msg_adapter_not_found), job, w1)))"

text \<open>\<^verbatim>\<open>FinetuneJob.wait_until_complete\<close>, which waits with the default arguments
  \<^verbatim>\<open>max_retries = 60\<close> and \<^verbatim>\<open>retry_interval = 30\<close>.\<close>

definition FinetuneJob_wait_until_complete ::
  "(string \<Rightarrow> json option) \<Rightarrow> FinetuneJob \<Rightarrow> world \<Rightarrow> (error + json) \<times> FinetuneJob \<times> world" where
  "FinetuneJob_wait_until_complete loads job w =
     (case wait_for_completion 60 30 job w of
        (Inl e, job1, w1) \<Rightarrow> (Inl e, job1, w1)
      | (Inr u, job1, w1) \<Rightarrow>
          (case get_adapter_id loads job1 w1 of
             (Inl e, job2, w2) \<Rightarrow> (Inl e, job2, w2)
           | (Inr u, job2, w2) \<Rightarrow>
               (Inr (JObj [(''job_id'', job_id job2),
                           (''adapter_id'', adapter_id job2),
                           (''status'', JStr ''succeeded'')]),
                job2, w2)))"

section \<open>Endpoint\<close>

record Endpoint =
  endpoint_id :: string
  rp_client :: SXWLClient

text \<open>\<^verbatim>\<open>Endpoint.__init__\<close>.\<close>

definition new_Endpoint :: "(string \<Rightarrow> string option) \<Rightarrow> string \<Rightarrow> world \<Rightarrow> error + Endpoint" where
  "new_Endpoint decode eid w =
     and_then (create_default decode (api_key w) (endpoint_url_base w)) (\<lambda>cfg.
       Inr \<lparr>endpoint_id = eid, rp_client = \<lparr>config = cfg\<rparr>\<rparr>)"

text \<open>\<^verbatim>\<open>Endpoint.run\<close>.\<close>

definition run :: "Endpoint \<Rightarrow> json \<Rightarrow> world \<Rightarrow> (error + InferenceService) \<times> world" where
  "run ep request_input w =
     (case py_get request_input ''input'' JNull of
        Inl e \<Rightarrow> (Inl e, w)
      | Inr v \<Rightarrow>
          (let request_input' =
                 (if \<not> py_truthy v then JObj [(''input'', request_input)] else request_input)
           in case deploy (new_InferenceService (rp_client ep)) request_input' w of
                (Inl e, svc, w1) \<Rightarrow> (Inl e, w1)
              | (Inr u, svc, w1) \<Rightarrow> (Inr svc, w1)))"

text \<open>\<^verbatim>\<open>Endpoint.run_sync\<close>; the argument \<^verbatim>\<open>timeout\<close> is not used by the source.\<close>

definition run_sync ::
  "(string \<Rightarrow> string option) \<Rightarrow> Endpoint \<Rightarrow> json \<Rightarrow> int \<Rightarrow> world \<Rightarrow> (error + json) \<times> world" where
  "run_sync decode ep request_input timeout w =
     (case py_get request_input ''input'' JNull of
        Inl e \<Rightarrow> (Inl e, w)
      | Inr v \<Rightarrow>
          (let request_input' =
                 (if \<not> py_truthy v then JObj [(''input'', request_input)] else request_input)
           in case create_default decode (api_key w) (endpoint_url_base w) of
                Inl e \<Rightarrow> (Inl e, w)
              | Inr cfg \<Rightarrow>
                  (case deploy (new_InferenceService \<lparr>config = cfg\<rparr>) request_input' w of
                     (Inl e, svc, w1) \<Rightarrow> (Inl e, w1)
                   | (Inr u, svc, w1) \<Rightarrow>
                       (case wait_until_complete svc w1 of
                          (r, svc2, w2) \<Rightarrow> (r, w2)))))"

section \<open>Vocabulary of the properties\<close>

text \<open>
  The listings that the platform serves are JSON objects that hold a list of records
  under a key (\<^verbatim>\<open>data\<close>, \<^verbatim>\<open>content\<close>, \<^verbatim>\<open>user_list\<close>); a missing key stands for the
  empty list.  \<open>listing key resp\<close> is that list, and \<open>None\<close> for a response of
  any other shape.
\<close>

definition listing :: "string \<Rightarrow> response \<Rightarrow> json list option" where
  "listing key resp =
     (case resp of
        Response (Some (JObj kvs)) \<Rightarrow>
          (case map_of kvs key of
             None \<Rightarrow> Some []
           | Some (JList items) \<Rightarrow> Some items
           | Some other \<Rightarrow> None)
      | other \<Rightarrow> None)"

text \<open>A record that carries the field \<open>key\<close>.\<close>

definition has_field :: "string \<Rightarrow> json \<Rightarrow> bool" where
  "has_field key item = (case py_getitem item key of Inl e \<Rightarrow> False | Inr v \<Rightarrow> True)"

text \<open>The entry of a listing for an identifier: the first record whose field \<open>key\<close>
  equals it.\<close>

definition entry_for :: "string \<Rightarrow> json \<Rightarrow> json list \<Rightarrow> json option" where
  "entry_for key ident items =
     find (\<lambda>item. case py_getitem item key of Inl e \<Rightarrow> False | Inr n \<Rightarrow> py_eq n ident) items"

text \<open>The status that a listing of records with the field \<open>key\<close> reports for an
  identifier: \<open>Some None\<close> when the listing has no entry for it, \<open>Some (Some s)\<close> when its
  entry has status \<open>s\<close>, \<open>None\<close> when the response is no such listing or the entry
  has no status.\<close>

definition reported_status :: "string \<Rightarrow> string \<Rightarrow> json \<Rightarrow> response \<Rightarrow> json option option" where
  "reported_status lkey key ident resp =
     (case listing lkey resp of
        None \<Rightarrow> None
      | Some items \<Rightarrow>
          (if list_all (has_field key) items then
             (case entry_for key ident items of
                None \<Rightarrow> Some None
              | Some e \<Rightarrow>
                  (case py_getitem e ''status'' of Inl err \<Rightarrow> None | Inr s \<Rightarrow> Some (Some s)))
           else None))"

text \<open>A status response that leaves the service pending: no entry for the service, or
  an entry with a status other than \<^verbatim>\<open>running\<close>.\<close>

definition service_pending :: "json \<Rightarrow> response \<Rightarrow> bool" where
  "service_pending name resp =
     (case reported_status ''data'' ''service_name'' name resp of
        None \<Rightarrow> False
      | Some None \<Rightarrow> True
      | Some (Some s) \<Rightarrow> s \<noteq> JStr ''running'')"

text \<open>A status response whose entry for the service has status \<^verbatim>\<open>running\<close> and
  \<^verbatim>\<open>api\<close> field \<open>a\<close>.\<close>

definition service_running :: "json \<Rightarrow> json \<Rightarrow> response \<Rightarrow> bool" where
  "service_running name a resp =
     (reported_status ''data'' ''service_name'' name resp = Some (Some (JStr ''running'')) \<and>
      (case listing ''data'' resp of
         None \<Rightarrow> False
       | Some items \<Rightarrow>
           (case entry_for ''service_name'' name items of
              None \<Rightarrow> False
            | Some e \<Rightarrow> py_getitem e ''api'' = Inr a)))"

text \<open>A training-job listing that leaves the job pending: no entry for the job, or an
  entry whose status is none of \<^verbatim>\<open>succeeded\<close>, \<^verbatim>\<open>failed\<close>, \<^verbatim>\<open>error\<close>.\<close>

definition job_pending :: "json \<Rightarrow> response \<Rightarrow> bool" where
  "job_pending jid resp =
     (case reported_status ''content'' ''jobName'' jid resp of
        None \<Rightarrow> False
      | Some None \<Rightarrow> True
      | Some (Some s) \<Rightarrow>
          s \<noteq> JStr ''succeeded'' \<and> s \<noteq> JStr ''failed'' \<and> s \<noteq> JStr ''error'')"

text \<open>The two requests that the polling loops repeat.\<close>

definition status_request :: "SXWLClient \<Rightarrow> request" where
  "status_request c = build_request c ''GET'' ''/job/inference'' No_kwargs"

definition training_request :: "SXWLClient \<Rightarrow> request" where
  "training_request c =
     build_request c ''GET'' ''/job/training''
       (Params_kw [(''current'', JInt 1), (''size'', JInt 1000)])"

text \<open>The request that \<^verbatim>\<open>deploy\<close> sends for a model configuration, and the request
  of \<^verbatim>\<open>_get_adapter_id\<close>.\<close>

definition deploy_request :: "SXWLClient \<Rightarrow> json \<Rightarrow> request" where
  "deploy_request c body = build_request c ''POST'' ''/job/inference'' (Json_kw body)"

definition adapters_request :: "SXWLClient \<Rightarrow> request" where
  "adapters_request c = build_request c ''GET'' ''/resource/adapters'' No_kwargs"

text \<open>
  The metadata of an adapter record: the string under \<^verbatim>\<open>meta\<close>, and the text \<^verbatim>\<open>{}\<close> for a
  record without that key.  An adapter is undecodable when this text does not decode as
  JSON, which is when \<^verbatim>\<open>json.loads\<close> raises \<^verbatim>\<open>JSONDecodeError\<close>.  When the text decodes
  to an object, its \<^verbatim>\<open>finetune_id\<close> is the value
  under that key, \<^verbatim>\<open>None\<close> without the key; the adapter matches a job when that value
  equals the job id, and belongs to another job otherwise.
\<close>

definition meta_text :: "json \<Rightarrow> string option" where
  "meta_text adapter =
     (case adapter of
        JObj kvs \<Rightarrow>
          (case map_of kvs ''meta'' of
             None \<Rightarrow> Some ''{}''
           | Some (JStr s) \<Rightarrow> Some s
           | Some other \<Rightarrow> None)
      | other \<Rightarrow> None)"

definition undecodable :: "(string \<Rightarrow> json option) \<Rightarrow> json \<Rightarrow> bool" where
  "undecodable loads adapter =
     (case meta_text adapter of None \<Rightarrow> False | Some s \<Rightarrow> loads s = None)"

definition finetune_id_of :: "(string \<Rightarrow> json option) \<Rightarrow> json \<Rightarrow> json option" where
  "finetune_id_of loads adapter =
     (case meta_text adapter of
        None \<Rightarrow> None
      | Some s \<Rightarrow>
          (case loads s of
             Some (JObj m) \<Rightarrow> Some (case map_of m ''finetune_id'' of None \<Rightarrow> JNull | Some f \<Rightarrow> f)
           | other \<Rightarrow> None))"

definition matches_job :: "(string \<Rightarrow> json option) \<Rightarrow> json \<Rightarrow> json \<Rightarrow> bool" where
  "matches_job loads jid adapter =
     (case finetune_id_of loads adapter of None \<Rightarrow> False | Some f \<Rightarrow> py_eq f jid)"

definition of_other_job :: "(string \<Rightarrow> json option) \<Rightarrow> json \<Rightarrow> json \<Rightarrow> bool" where
  "of_other_job loads jid adapter =
     (case finetune_id_of loads adapter of None \<Rightarrow> False | Some f \<Rightarrow> \<not> py_eq f jid)"

text \<open>A platform that answers the \<open>n\<close>-th request with the \<open>n\<close>-th element of a script
  and refuses every later one; used for concrete runs.\<close>

definition scripted :: "response option list \<Rightarrow> nat \<Rightarrow> request \<Rightarrow> response option" where
  "scripted rs n req = (if n < length rs then rs ! n else None)"

text \<open>A platform that gives every request the same answer.\<close>

definition always :: "response option \<Rightarrow> nat \<Rightarrow> request \<Rightarrow> response option" where
  "always r n req = r"

text \<open>A client and a world for concrete runs: nothing has been sent, and the two sets
  start with the given identifiers.\<close>

definition example_client :: SXWLClient where
  "example_client =
     \<lparr>config = \<lparr>base_url = ''https://sxwl.ai'', token = KeyStr ''k'',
                 headers = [(''Authorization'', ''Bearer k'')]\<rparr>\<rparr>"

definition example_world ::
  "(nat \<Rightarrow> request \<Rightarrow> response option) \<Rightarrow> json list \<Rightarrow> json list \<Rightarrow> world" where
  "example_world platform services jobs =
     \<lparr>api_key = KeyStr ''k'', endpoint_url_base = ''https://sxwl.ai'',
      server = platform, sent = [], slept = [],
      inference_services = services, finetune_jobs = jobs\<rparr>"

text \<open>A deployed service, a submitted job, and replies of the platform in the shape of
  its listings.\<close>

definition example_service :: InferenceService where
  "example_service =
     \<lparr>client = example_client, service_name = JStr ''svc'', api_endpoint = JNull\<rparr>"

definition example_job :: FinetuneJob where
  "example_job = \<lparr>job_client = example_client, job_id = JStr ''job'', adapter_id = JNull\<rparr>"

definition service_entry :: "string \<Rightarrow> string \<Rightarrow> string \<Rightarrow> json" where
  "service_entry name st api =
     JObj [(''service_name'', JStr name), (''status'', JStr st), (''api'', JStr api)]"

definition status_reply :: "json list \<Rightarrow> response option" where
  "status_reply items = Some (Response (Some (JObj [(''data'', JList items)])))"

definition job_entry :: "string \<Rightarrow> string \<Rightarrow> json" where
  "job_entry name st = JObj [(''jobName'', JStr name), (''status'', JStr st)]"

definition training_reply :: "json list \<Rightarrow> response option" where
  "training_reply items = Some (Response (Some (JObj [(''content'', JList items)])))"

text \<open>
  Metadata texts for concrete runs, and a decoder that agrees with \<^verbatim>\<open>json.loads\<close> on the
  texts used there: \<open>meta_for j\<close> is the JSON text of an object whose only member is
  \<^verbatim>\<open>finetune_id\<close> with the string \<open>j\<close>.
\<close>

definition meta_for :: "string \<Rightarrow> string" where
  "meta_for j =
     ''{'' @ [CHR 0x22] @ ''finetune_id'' @ [CHR 0x22] @ '': '' @ [CHR 0x22] @ j @ [CHR 0x22] @ ''}''"

definition example_loads :: "string \<Rightarrow> json option" where
  "example_loads s =
     (if s = meta_for ''job'' then Some (JObj [(''finetune_id'', JStr ''job'')])
      else if s = meta_for ''old'' then Some (JObj [(''finetune_id'', JStr ''old'')])
      else if s = ''{}'' then Some (JObj [])
      else if s = ''[]'' then Some (JList [])
      else None)"

definition adapter_entry :: "string \<Rightarrow> string \<Rightarrow> json" where
  "adapter_entry ident meta = JObj [(''id'', JStr ident), (''meta'', JStr meta)]"

definition adapters_reply :: "json list \<Rightarrow> response option" where
  "adapters_reply items = Some (Response (Some (JObj [(''user_list'', JList items)])))"

definition example_endpoint :: Endpoint where
  "example_endpoint = \<lparr>endpoint_id = ''INFERENCE'', rp_client = example_client\<rparr>"

section \<open>Basic facts\<close>

lemma py_eq_JStr [simp]: "py_eq x (JStr s) = (x = JStr s)"
  by (cases x) auto

lemma py_eq_refl_hashable: "hashable v \<Longrightarrow> py_eq v v"
  by (cases v) auto

lemma make_request_simp:
  "make_request c meth endpoint kw w =
     ((case server w (length (sent w)) (build_request c meth endpoint kw) of
         None \<Rightarrow> Inl RequestException | Some r \<Rightarrow> Inr r),
      w\<lparr>sent := sent w @ [build_request c meth endpoint kw]\<rparr>)"
  by (simp add: make_request_def Let_def)

lemma listing_chain:
  "listing key resp = Some items \<Longrightarrow>
   and_then (response_json resp) (\<lambda>j.
     and_then (py_get j key (JList [])) (\<lambda>d. and_then (py_iter d) F)) = F items"
  by (auto simp: listing_def split: response.splits option.splits json.splits)

lemma set_discard_JStr: "set_discard (JStr s) S = Inr (filter (\<lambda>x. x \<noteq> JStr s) S)"
  by (simp add: set_discard_def)

lemma not_mem_filter: "\<not> set_mem (JStr s) (filter (\<lambda>x. x \<noteq> JStr s) S)"
  by (simp add: set_mem_def list_ex_iff)

section \<open>Configuration provider\<close>

text \<open>
  Claim C1 says that building the default configuration fails when the process-wide API
  key is absent or empty, and returns no configuration then.  \<^verbatim>\<open>create_default\<close> has no
  such check.  With the key \<^verbatim>\<open>None\<close> it returns a configuration whose token is
  \<^verbatim>\<open>None\<close> and whose \<^verbatim>\<open>Authorization\<close> header is \<^verbatim>\<open>Bearer None\<close>.
\<close>

theorem create_default_absent_key_counterexample:
  "create_default Some KeyNone ''https://sxwl.ai'' =
     Inr \<lparr>base_url = ''https://sxwl.ai'', token = KeyNone,
          headers = [(''Accept'', ''application/json, text/plain, */*''),
                     (''Authorization'', ''Bearer None''),
                     (''Content-Type'', ''application/json''),
                     (''Origin'', ''https://sxwl.ai''),
                     (''Connection'', ''keep-alive''),
                     (''User-Agent'', ''github-actions'')]\<rparr>"
  by (simp add: create_default_def)

text \<open>
  Claim C1 as amended: building the default configuration does not check the key.  When
  the process-wide API key is absent (\<^verbatim>\<open>None\<close>) or empty (the empty \<^verbatim>\<open>str\<close> or the
  empty \<^verbatim>\<open>bytes\<close>), a configuration is returned all the same: its token is the key
  unchanged, and its \<^verbatim>\<open>Authorization\<close> header is \<^verbatim>\<open>Bearer\<close> followed by the text of
  the key (\<^verbatim>\<open>None\<close>, nothing, \<^verbatim>\<open>b''\<close>).
\<close>

theorem create_default_returns_config_without_key:
  "create_default decode KeyNone base =
     Inr \<lparr>base_url = base, token = KeyNone,
          headers = [(''Accept'', ''application/json, text/plain, */*''),
                     (''Authorization'', ''Bearer None''),
                     (''Content-Type'', ''application/json''),
                     (''Origin'', base),
                     (''Connection'', ''keep-alive''),
                     (''User-Agent'', ''github-actions'')]\<rparr>
   \<and> create_default decode (KeyStr []) base =
     Inr \<lparr>base_url = base, token = KeyStr [],
          headers = [(''Accept'', ''application/json, text/plain, */*''),
                     (''Authorization'', ''Bearer ''),
                     (''Content-Type'', ''application/json''),
                     (''Origin'', base),
                     (''Connection'', ''keep-alive''),
                     (''User-Agent'', ''github-actions'')]\<rparr>
   \<and> create_default decode (KeyBytes []) base =
     Inr \<lparr>base_url = base, token = KeyBytes [],
          headers = [(''Accept'', ''application/json, text/plain, */*''),
                     (''Authorization'', ''Bearer b'' @ [CHR 0x27, CHR 0x27]),
                     (''Content-Type'', ''application/json''),
                     (''Origin'', base),
                     (''Connection'', ''keep-alive''),
                     (''User-Agent'', ''github-actions'')]\<rparr>"
  by (simp add: create_default_def)

section \<open>Resource client\<close>

lemma get_models_total: "\<exists>v. fst (get_models c w) = Inr v"
  by (simp add: get_models_def split: prod.splits sum.splits)

lemma get_models_failure:
  "fst (get_models_try c w) = Inl e \<Longrightarrow> fst (get_models c w) = Inr (JList [])"
  by (auto simp add: get_models_def split: prod.splits sum.splits)

lemma get_models_transport:
  "server w (length (sent w)) (build_request c ''GET'' ''/resource/models'' No_kwargs) = None
   \<Longrightarrow> fst (get_models c w) = Inr (JList [])"
  by (simp add: get_models_def get_models_try_def make_request_simp)

lemma get_models_merge:
  "server w (length (sent w)) (build_request c ''GET'' ''/resource/models'' No_kwargs) = Some r
   \<Longrightarrow> listing ''public_list'' r = Some pub \<Longrightarrow> listing ''user_list'' r = Some usr
   \<Longrightarrow> fst (get_models c w) = Inr (JList (pub @ usr))"
  by (auto simp add: get_models_def get_models_try_def make_request_simp listing_def
      split: response.splits option.splits json.splits)

text \<open>
  Claim C7: \<^verbatim>\<open>get_models\<close> never raises.  Whenever the body of its \<^verbatim>\<open>try\<close> block raises
  anything, and in particular when the request itself raises a transport error, the
  result is the empty list.  When the server answers with an object whose
  \<^verbatim>\<open>public_list\<close> and \<^verbatim>\<open>user_list\<close> are lists (a missing one counts as empty), the
  result is the public list followed by the user list.
\<close>

theorem get_models_never_raises:
  "(\<exists>v. fst (get_models c w) = Inr v)
   \<and> (\<forall>e. fst (get_models_try c w) = Inl e \<longrightarrow> fst (get_models c w) = Inr (JList []))
   \<and> (server w (length (sent w)) (build_request c ''GET'' ''/resource/models'' No_kwargs) = None
        \<longrightarrow> fst (get_models_try c w) = Inl RequestException
            \<and> fst (get_models c w) = Inr (JList []))
   \<and> (\<forall>r pub usr.
        server w (length (sent w)) (build_request c ''GET'' ''/resource/models'' No_kwargs) = Some r
        \<and> listing ''public_list'' r = Some pub \<and> listing ''user_list'' r = Some usr
        \<longrightarrow> fst (get_models c w) = Inr (JList (pub @ usr)))"
  using get_models_total get_models_failure get_models_transport get_models_merge
  by (auto simp: get_models_try_def make_request_simp)

theorem get_models_never_raises_witness:
  "fst (get_models example_client (example_world (scripted [None]) [] [])) = Inr (JList [])
   \<and> fst (get_models example_client (example_world (scripted [Some (Response None)]) [] []))
       = Inr (JList [])
   \<and> fst (get_models example_client
         (example_world
            (scripted [Some (Response (Some (JObj [(''public_list'', JList [JStr ''m1'']),
                                                   (''user_list'', JList [JStr ''m2''])])))])
            [] []))
       = Inr (JList [JStr ''m1'', JStr ''m2''])"
proof -
  let ?r = "Response (Some (JObj [(''public_list'', JList [JStr ''m1'']),
                                   (''user_list'', JList [JStr ''m2''])]))"
  have a: "server (example_world (scripted [None]) [] []) (length (sent (example_world (scripted [None]) [] [])))
             (build_request example_client ''GET'' ''/resource/models'' No_kwargs) = None"
    by (simp add: example_world_def scripted_def)
  have b: "fst (get_models_try example_client (example_world (scripted [Some (Response None)]) [] []))
             = Inl JSONDecodeError"
    by (simp add: get_models_try_def make_request_simp example_world_def scripted_def)
  have c: "server (example_world (scripted [Some ?r]) [] []) (length (sent (example_world (scripted [Some ?r]) [] [])))
             (build_request example_client ''GET'' ''/resource/models'' No_kwargs) = Some ?r
           \<and> listing ''public_list'' ?r = Some [JStr ''m1'']
           \<and> listing ''user_list'' ?r = Some [JStr ''m2'']"
    by (simp add: example_world_def scripted_def listing_def)
  from a b c
    get_models_never_raises [of example_client "example_world (scripted [None]) [] []"]
    get_models_never_raises [of example_client "example_world (scripted [Some (Response None)]) [] []"]
    get_models_never_raises [of example_client "example_world (scripted [Some ?r]) [] []"]
  show ?thesis by (simp del: append.simps) 
qed

text \<open>
  Claim C9: \<^verbatim>\<open>delete_inference_service\<close> and \<^verbatim>\<open>delete_finetune_job\<close> never raise.  When
  the request raises, the cleanup set is left as it was; when the request succeeds, the
  identifier is no longer in the set, and nothing else has left it.
\<close>

theorem delete_removes_only_on_success:
  "fst (delete_inference_service c name w) = Inr ()
   \<and> fst (delete_finetune_job c name w) = Inr ()
   \<and> (server w (length (sent w))
         (build_request c ''DELETE'' ''/job/inference''
            (Params_kw [(''service_name'', JStr name)])) = None \<longrightarrow>
       inference_services (snd (delete_inference_service c name w)) = inference_services w)
   \<and> (server w (length (sent w))
         (build_request c ''DELETE'' ''/job/inference''
            (Params_kw [(''service_name'', JStr name)])) \<noteq> None \<longrightarrow>
       \<not> set_mem (JStr name) (inference_services (snd (delete_inference_service c name w)))
       \<and> inference_services (snd (delete_inference_service c name w)) =
           filter (\<lambda>x. x \<noteq> JStr name) (inference_services w))
   \<and> (server w (length (sent w))
         (build_request c ''POST'' ''/userJob/job_del''
            (Json_kw (JObj [(''job_id'', JStr name)]))) = None \<longrightarrow>
       finetune_jobs (snd (delete_finetune_job c name w)) = finetune_jobs w)
   \<and> (server w (length (sent w))
         (build_request c ''POST'' ''/userJob/job_del''
            (Json_kw (JObj [(''job_id'', JStr name)]))) \<noteq> None \<longrightarrow>
       \<not> set_mem (JStr name) (finetune_jobs (snd (delete_finetune_job c name w)))
       \<and> finetune_jobs (snd (delete_finetune_job c name w)) =
           filter (\<lambda>x. x \<noteq> JStr name) (finetune_jobs w))"
  by (auto simp: delete_inference_service_def delete_finetune_job_def make_request_simp
        set_discard_JStr not_mem_filter split: option.splits)

theorem delete_removes_only_on_success_witness:
  "inference_services (snd (delete_inference_service example_client ''a''
      (example_world (scripted [Some (Response None)]) [JStr ''a'', JStr ''b''] []))) = [JStr ''b'']
   \<and> inference_services (snd (delete_inference_service example_client ''a''
      (example_world (scripted [None]) [JStr ''a'', JStr ''b''] []))) = [JStr ''a'', JStr ''b'']
   \<and> finetune_jobs (snd (delete_finetune_job example_client ''j''
      (example_world (scripted [Some (Response None)]) [] [JStr ''j'', JStr ''k'']))) = [JStr ''k'']
   \<and> finetune_jobs (snd (delete_finetune_job example_client ''j''
      (example_world (scripted [None]) [] [JStr ''j'', JStr ''k'']))) = [JStr ''j'', JStr ''k'']"
  using
    delete_removes_only_on_success [of example_client "''a''" "example_world (scripted [Some (Response None)]) [JStr ''a'', JStr ''b''] []"]
    delete_removes_only_on_success [of example_client "''a''" "example_world (scripted [None]) [JStr ''a'', JStr ''b''] []"]
    delete_removes_only_on_success [of example_client "''j''" "example_world (scripted [Some (Response None)]) [] [JStr ''j'', JStr ''k'']"]
    delete_removes_only_on_success [of example_client "''j''" "example_world (scripted [None]) [] [JStr ''j'', JStr ''k'']"]
  by (simp add: example_world_def scripted_def)

section \<open>Listings\<close>

lemmas example_defs =
  example_world_def example_client_def example_service_def example_job_def
  service_entry_def status_reply_def job_entry_def training_reply_def scripted_def always_def

lemmas vocabulary_defs =
  service_pending_def service_running_def job_pending_def reported_status_def listing_def
  has_field_def entry_for_def

lemma reported_statusD:
  assumes "reported_status lkey key ident resp = Some x"
  shows "\<exists>items. listing lkey resp = Some items \<and> list_all (has_field key) items \<and>
           (case x of
              None \<Rightarrow> entry_for key ident items = None
            | Some s \<Rightarrow> (\<exists>e. entry_for key ident items = Some e \<and> py_getitem e ''status'' = Inr s))"
  using assms
  by (auto simp: reported_status_def split: option.splits if_splits sum.splits)
section \<open>Inference service controller: status and output\<close>

lemma status_loop_entry:
  "list_all (has_field ''service_name'') items \<Longrightarrow>
   status_loop name items =
     (case entry_for ''service_name'' name items of
        None \<Rightarrow> Inr (JStr ''unknown'')
      | Some e \<Rightarrow> py_getitem e ''status'')"
  by (induction items) (auto simp: entry_for_def has_field_def split: sum.splits)

lemma output_loop_entry:
  "list_all (has_field ''service_name'') items \<Longrightarrow>
   output_loop name items =
     (case entry_for ''service_name'' name items of
        None \<Rightarrow> Inr (JObj [(''status'', JStr ''unknown'')])
      | Some e \<Rightarrow>
          and_then (py_getitem e ''status'') (\<lambda>s.
            if s = JStr ''running'' then
              and_then (py_getitem e ''api'') (\<lambda>a. Inr (JObj [(''chat_url'', a)]))
            else Inr (JObj [(''status'', s)])))"
  by (induction items) (auto simp: entry_for_def has_field_def split: sum.splits)

text \<open>
  Claim C8: when the status request is answered with a listing of records that has no
  record whose \<^verbatim>\<open>service_name\<close> equals the controller's, \<^verbatim>\<open>status\<close> returns the string
  \<^verbatim>\<open>unknown\<close> and \<^verbatim>\<open>output\<close> returns the payload with status \<^verbatim>\<open>unknown\<close>; neither
  raises.
\<close>

theorem status_unknown_when_absent:
  assumes "server w (length (sent w)) (status_request (client svc)) = Some r"
    and "reported_status ''data'' ''service_name'' (service_name svc) r = Some None"
  shows "fst (status svc w) = Inr (JStr ''unknown'')
       \<and> fst (service_output svc w) = Inr (JObj [(''status'', JStr ''unknown'')])"
proof -
  from reported_statusD [OF assms(2)] obtain items where
    l: "listing ''data'' r = Some items" and
    wf: "list_all (has_field ''service_name'') items" and
    e: "entry_for ''service_name'' (service_name svc) items = None"
    by auto
  from assms(1) have req:
    "server w (length (sent w)) (build_request (client svc) ''GET'' ''/job/inference'' No_kwargs)
       = Some r"
    by (simp add: status_request_def)
  have "fst (status svc w) = status_loop (service_name svc) items"
    using req listing_chain [OF l, of "status_loop (service_name svc)"]
    by (simp add: status_def make_request_simp)
  moreover have "fst (service_output svc w) = output_loop (service_name svc) items"
    using req listing_chain [OF l, of "output_loop (service_name svc)"]
    by (simp add: service_output_def make_request_simp)
  ultimately show ?thesis
    using wf e by (simp add: status_loop_entry output_loop_entry)
qed

theorem status_unknown_when_absent_witness:
  "fst (status example_service
          (example_world (scripted [status_reply [service_entry ''other'' ''running'' ''http://other'']])
             [] []))
     = Inr (JStr ''unknown'')
   \<and> fst (service_output example_service
          (example_world (scripted [status_reply [service_entry ''other'' ''running'' ''http://other'']])
             [] []))
     = Inr (JObj [(''status'', JStr ''unknown'')])"
proof -
  let ?r = "Response (Some (JObj [(''data'',
              JList [service_entry ''other'' ''running'' ''http://other''])]))"
  let ?w = "example_world (scripted [status_reply [service_entry ''other'' ''running'' ''http://other'']])
              [] []"
  have a: "server ?w (length (sent ?w)) (status_request (client example_service)) = Some ?r"
    by (simp add: example_defs)
  have b: "reported_status ''data'' ''service_name'' (service_name example_service) ?r = Some None"
    by (simp add: example_defs vocabulary_defs)
  from status_unknown_when_absent [OF a b] show ?thesis .
qed
section \<open>Inference service controller: waiting until ready\<close>

lemma ready_loop_entry:
  "list_all (has_field ''service_name'') items \<Longrightarrow>
   ready_loop name items =
     (case entry_for ''service_name'' name items of
        None \<Rightarrow> Inr None
      | Some e \<Rightarrow>
          and_then (py_getitem e ''status'') (\<lambda>s.
            if s = JStr ''running'' then and_then (py_getitem e ''api'') (\<lambda>a. Inr (Some a))
            else Inr None))"
  by (induction items) (auto simp: entry_for_def has_field_def split: sum.splits)

lemma ready_poll_pending:
  assumes "service_pending name resp"
  shows "and_then (response_json resp) (\<lambda>j.
           and_then (py_get j ''data'' (JList [])) (\<lambda>d.
             and_then (py_iter d) (ready_loop name))) = Inr None"
proof -
  from assms obtain x where x: "reported_status ''data'' ''service_name'' name resp = Some x"
    and nr: "x \<noteq> Some (JStr ''running'')"
    by (auto simp: service_pending_def split: option.splits)
  from reported_statusD [OF x] nr obtain items where
    l: "listing ''data'' resp = Some items" and "ready_loop name items = Inr None"
    by (cases x) (auto simp: ready_loop_entry)
  then show ?thesis by (simp add: listing_chain)
qed

lemma ready_poll_running:
  assumes "service_running name a resp"
  shows "and_then (response_json resp) (\<lambda>j.
           and_then (py_get j ''data'' (JList [])) (\<lambda>d.
             and_then (py_iter d) (ready_loop name))) = Inr (Some a)"
proof -
  from assms have x:
    "reported_status ''data'' ''service_name'' name resp = Some (Some (JStr ''running''))"
    by (simp add: service_running_def)
  from reported_statusD [OF x] assms obtain items where
    l: "listing ''data'' resp = Some items" and "ready_loop name items = Inr (Some a)"
    by (auto simp: ready_loop_entry service_running_def)
  then show ?thesis by (simp add: listing_chain)
qed

lemma wait_for_ready_step_pending:
  assumes "server w (length (sent w)) (status_request (client svc)) = Some r"
    and "service_pending (service_name svc) r" and "0 \<le> retry_interval"
  shows "wait_for_ready_loop (Suc n) retry_interval svc w =
         wait_for_ready_loop n retry_interval svc
           (w\<lparr>sent := sent w @ [status_request (client svc)],
              slept := slept w @ [retry_interval]\<rparr>)"
  using assms ready_poll_pending [OF assms(2)]
  by (simp add: make_request_simp status_request_def)

lemma wait_for_ready_step_running:
  assumes "server w (length (sent w)) (status_request (client svc)) = Some r"
    and "service_running (service_name svc) a r"
  shows "wait_for_ready_loop (Suc n) retry_interval svc w =
         (Inr (), svc\<lparr>api_endpoint := a\<rparr>, w\<lparr>sent := sent w @ [status_request (client svc)]\<rparr>)"
  using assms ready_poll_running [OF assms(2)]
  by (simp add: make_request_simp status_request_def)

lemma wait_for_ready_loop_pending:
  assumes "0 \<le> retry_interval"
    and "\<forall>i<j. \<exists>r. server w (length (sent w) + i) (status_request (client svc)) = Some r
                    \<and> service_pending (service_name svc) r"
  shows "wait_for_ready_loop (j + n) retry_interval svc w =
         wait_for_ready_loop n retry_interval svc
           (w\<lparr>sent := sent w @ replicate j (status_request (client svc)),
              slept := slept w @ replicate j retry_interval\<rparr>)"
  using assms(2)
proof (induction j arbitrary: w)
  case 0
  then show ?case by simp
next
  case (Suc j)
  from Suc.prems obtain r where
    r: "server w (length (sent w)) (status_request (client svc)) = Some r"
       "service_pending (service_name svc) r"
    by force
  let ?w = "w\<lparr>sent := sent w @ [status_request (client svc)],
               slept := slept w @ [retry_interval]\<rparr>"
  have "\<forall>i<j. \<exists>r. server ?w (length (sent ?w) + i) (status_request (client svc)) = Some r
                    \<and> service_pending (service_name svc) r"
  proof (intro allI impI)
    fix i assume "i < j"
    with Suc.prems obtain r' where
      "server w (length (sent w) + Suc i) (status_request (client svc)) = Some r'"
      "service_pending (service_name svc) r'"
      by blast
    then show "\<exists>r. server ?w (length (sent ?w) + i) (status_request (client svc)) = Some r
                    \<and> service_pending (service_name svc) r"
      by simp
  qed
  from Suc.IH [OF this] wait_for_ready_step_pending [OF r assms(1), of "j + n"]
  show ?case by (simp del: wait_for_ready_loop.simps)
qed

text \<open>
  Claim C3: let the first \<open>k - 1\<close> status requests be answered with listings that leave
  the service pending, and the \<open>k\<close>-th, with \<open>k\<close> at most \<^verbatim>\<open>max_retries\<close>, with a
  listing whose entry for \<^verbatim>\<open>service_name\<close> has status \<^verbatim>\<open>running\<close> and \<^verbatim>\<open>api\<close> field
  \<open>a\<close>.  Then \<^verbatim>\<open>_wait_for_ready\<close> returns with \<^verbatim>\<open>api_endpoint\<close> set to \<open>a\<close>, having
  sent exactly \<open>k\<close> status requests and slept \<open>k - 1\<close> times: nothing is sent after the
  \<^verbatim>\<open>running\<close> response.  The entry of a listing for a service is the first record
  with that \<^verbatim>\<open>service_name\<close>, and the sleep length is not negative.
\<close>

theorem wait_for_ready_returns_at_first_running:
  assumes "0 < k" and "int k \<le> max_retries" and "0 \<le> retry_interval"
    and "\<forall>i<k - 1. \<exists>r. server w (length (sent w) + i) (status_request (client svc)) = Some r
                       \<and> service_pending (service_name svc) r"
    and "server w (length (sent w) + (k - 1)) (status_request (client svc)) = Some r"
    and "service_running (service_name svc) a r"
  shows "wait_for_ready max_retries retry_interval svc w =
           (Inr (), svc\<lparr>api_endpoint := a\<rparr>,
            w\<lparr>sent := sent w @ replicate k (status_request (client svc)),
              slept := slept w @ replicate (k - 1) retry_interval\<rparr>)"
proof -
  define n where "n = nat max_retries - k"
  from assms(1,2) have n: "nat max_retries = (k - 1) + Suc n"
    unfolding n_def by linarith
  let ?w = "w\<lparr>sent := sent w @ replicate (k - 1) (status_request (client svc)),
               slept := slept w @ replicate (k - 1) retry_interval\<rparr>"
  have "server ?w (length (sent ?w)) (status_request (client svc)) = Some r"
    using assms(5) by simp
  from wait_for_ready_step_running [OF this, of a n retry_interval] assms(6)
  have "wait_for_ready_loop (Suc n) retry_interval svc ?w =
          (Inr (), svc\<lparr>api_endpoint := a\<rparr>,
           ?w\<lparr>sent := sent ?w @ [status_request (client svc)]\<rparr>)"
    by simp
  moreover have "replicate (k - 1) (status_request (client svc)) @ [status_request (client svc)]
         = replicate k (status_request (client svc))"
    using assms(1) by (cases k) (simp_all add: replicate_append_same)
  ultimately show ?thesis
    using wait_for_ready_loop_pending [OF assms(3,4), of "Suc n"] n
    by (simp add: wait_for_ready_def del: wait_for_ready_loop.simps)
qed

lemma wait_for_ready_times_out:
  assumes "0 \<le> retry_interval"
    and "\<forall>i<nat max_retries.
           \<exists>r. server w (length (sent w) + i) (status_request (client svc)) = Some r
              \<and> service_pending (service_name svc) r"
  shows "wait_for_ready max_retries retry_interval svc w =
           (Inl (TimeoutError Msg_service_timeout), svc,
            w\<lparr>sent := sent w @ replicate (nat max_retries) (status_request (client svc)),
              slept := slept w @ replicate (nat max_retries) retry_interval\<rparr>)"
  using wait_for_ready_loop_pending [OF assms, of 0]
  by (simp add: wait_for_ready_def)




theorem wait_for_ready_returns_at_first_running_witness:
  "wait_for_ready 60 30 example_service
     (example_world
        (scripted
          [status_reply [service_entry ''svc'' ''pending'' []],
           status_reply [service_entry ''other'' ''running'' ''http://other''],
           status_reply [service_entry ''other'' ''running'' ''http://other'',
                         service_entry ''svc'' ''running'' ''http://svc'']]) [] [])
   = (Inr (), example_service\<lparr>api_endpoint := JStr ''http://svc''\<rparr>,
      (example_world
        (scripted
          [status_reply [service_entry ''svc'' ''pending'' []],
           status_reply [service_entry ''other'' ''running'' ''http://other''],
           status_reply [service_entry ''other'' ''running'' ''http://other'',
                         service_entry ''svc'' ''running'' ''http://svc'']]) [] [])
      \<lparr>sent := replicate 3 (status_request example_client), slept := [30, 30]\<rparr>)"
proof -
  let ?w = "example_world
        (scripted
          [status_reply [service_entry ''svc'' ''pending'' []],
           status_reply [service_entry ''other'' ''running'' ''http://other''],
           status_reply [service_entry ''other'' ''running'' ''http://other'',
                         service_entry ''svc'' ''running'' ''http://svc'']]) [] []"
  let ?r = "Response (Some (JObj [(''data'',
              JList [service_entry ''other'' ''running'' ''http://other'',
                     service_entry ''svc'' ''running'' ''http://svc''])]))"
  have pend: "\<forall>i<3 - 1. \<exists>r. server ?w (length (sent ?w) + i)
                 (status_request (client example_service)) = Some r
               \<and> service_pending (service_name example_service) r"
  proof (intro allI impI)
    fix i :: nat assume "i < 3 - 1"
    then have "i = 0 \<or> i = 1" by arith
    then show "\<exists>r. server ?w (length (sent ?w) + i)
                 (status_request (client example_service)) = Some r
               \<and> service_pending (service_name example_service) r"
      by (auto simp: example_defs vocabulary_defs)
  qed
  have last: "server ?w (length (sent ?w) + (3 - 1)) (status_request (client example_service))
               = Some ?r"
    by (simp add: example_defs)
  have run: "service_running (service_name example_service) (JStr ''http://svc'') ?r"
    by (simp add: example_defs vocabulary_defs)
  from wait_for_ready_returns_at_first_running [OF _ _ _ pend last run, of 60 30]
  show ?thesis by (simp add: example_defs numeral_3_eq_3)
qed

section \<open>Fine-tune job controller: waiting until completion\<close>

lemma completion_loop_entry:
  "list_all (has_field ''jobName'') jobs \<Longrightarrow>
   completion_loop jid jobs =
     (case entry_for ''jobName'' jid jobs of
        None \<Rightarrow> Inr False
      | Some e \<Rightarrow>
          and_then (py_getitem e ''status'') (\<lambda>s.
            if s = JStr ''succeeded'' then Inr True
            else if s = JStr ''failed'' \<or> s = JStr ''error''
              then Inl (RuntimeError Msg_finetune_failed)
            else Inr False))"
  by (induction jobs) (auto simp: entry_for_def has_field_def split: sum.splits cong: if_cong)

lemma completion_poll:
  assumes "reported_status ''content'' ''jobName'' jid resp = Some x"
  shows "and_then (response_json resp) (\<lambda>j.
           and_then (py_get j ''content'' (JList [])) (\<lambda>d.
             and_then (py_iter d) (completion_loop jid))) =
         (case x of
            None \<Rightarrow> Inr False
          | Some s \<Rightarrow>
              if s = JStr ''succeeded'' then Inr True
              else if s = JStr ''failed'' \<or> s = JStr ''error''
                then Inl (RuntimeError Msg_finetune_failed)
              else Inr False)"
proof -
  from reported_statusD [OF assms] obtain items where
    l: "listing ''content'' resp = Some items" and
    "completion_loop jid items =
       (case x of
            None \<Rightarrow> Inr False
          | Some s \<Rightarrow>
              if s = JStr ''succeeded'' then Inr True
              else if s = JStr ''failed'' \<or> s = JStr ''error''
                then Inl (RuntimeError Msg_finetune_failed)
              else Inr False)"
    by (cases x) (auto simp: completion_loop_entry)
  then show ?thesis by (simp add: listing_chain)
qed

lemma completion_poll_pending:
  assumes "job_pending jid resp"
  shows "and_then (response_json resp) (\<lambda>j.
           and_then (py_get j ''content'' (JList [])) (\<lambda>d.
             and_then (py_iter d) (completion_loop jid))) = Inr False"
proof -
  from assms obtain x where x: "reported_status ''content'' ''jobName'' jid resp = Some x"
    and nt: "x \<noteq> Some (JStr ''succeeded'')" "x \<noteq> Some (JStr ''failed'')"
            "x \<noteq> Some (JStr ''error'')"
    by (auto simp: job_pending_def split: option.splits)
  from completion_poll [OF x] nt show ?thesis
    by (cases x) auto
qed

lemma wait_for_completion_step_pending:
  assumes "server w (length (sent w)) (training_request (job_client job)) = Some r"
    and "job_pending (job_id job) r" and "0 \<le> retry_interval"
  shows "wait_for_completion_loop (Suc n) retry_interval job w =
         wait_for_completion_loop n retry_interval job
           (w\<lparr>sent := sent w @ [training_request (job_client job)],
              slept := slept w @ [retry_interval]\<rparr>)"
  using assms completion_poll_pending [OF assms(2)]
  by (simp add: make_request_simp training_request_def)

lemma wait_for_completion_step_terminal:
  assumes "server w (length (sent w)) (training_request (job_client job)) = Some r"
    and "reported_status ''content'' ''jobName'' (job_id job) r = Some (Some s)"
    and "s = JStr ''succeeded'' \<or> s = JStr ''failed'' \<or> s = JStr ''error''"
  shows "wait_for_completion_loop (Suc n) retry_interval job w =
         ((if s = JStr ''succeeded'' then Inr () else Inl (RuntimeError Msg_finetune_failed)),
          job, w\<lparr>sent := sent w @ [training_request (job_client job)]\<rparr>)"
  using assms(1,3) completion_poll [OF assms(2)]
  by (auto simp add: make_request_simp training_request_def)

lemma wait_for_completion_loop_pending:
  assumes "0 \<le> retry_interval"
    and "\<forall>i<j. \<exists>r. server w (length (sent w) + i) (training_request (job_client job)) = Some r
                    \<and> job_pending (job_id job) r"
  shows "wait_for_completion_loop (j + n) retry_interval job w =
         wait_for_completion_loop n retry_interval job
           (w\<lparr>sent := sent w @ replicate j (training_request (job_client job)),
              slept := slept w @ replicate j retry_interval\<rparr>)"
  using assms(2)
proof (induction j arbitrary: w)
  case 0
  then show ?case by simp
next
  case (Suc j)
  from Suc.prems obtain r where
    r: "server w (length (sent w)) (training_request (job_client job)) = Some r"
       "job_pending (job_id job) r"
    by force
  let ?w = "w\<lparr>sent := sent w @ [training_request (job_client job)],
               slept := slept w @ [retry_interval]\<rparr>"
  have "\<forall>i<j. \<exists>r. server ?w (length (sent ?w) + i) (training_request (job_client job)) = Some r
                    \<and> job_pending (job_id job) r"
  proof (intro allI impI)
    fix i assume "i < j"
    with Suc.prems obtain r' where
      "server w (length (sent w) + Suc i) (training_request (job_client job)) = Some r'"
      "job_pending (job_id job) r'"
      by blast
    then show "\<exists>r. server ?w (length (sent ?w) + i) (training_request (job_client job)) = Some r
                    \<and> job_pending (job_id job) r"
      by simp
  qed
  from Suc.IH [OF this] wait_for_completion_step_pending [OF r assms(1), of "j + n"]
  show ?case by (simp del: wait_for_completion_loop.simps)
qed

text \<open>
  Claim C4: let \<open>k\<close> polls leave the job pending and let the next poll, still within
  \<^verbatim>\<open>max_retries\<close>, be answered with a listing whose entry for \<^verbatim>\<open>job_id\<close> has status
  \<open>s\<close>.  If \<open>s\<close> is \<^verbatim>\<open>succeeded\<close>, \<^verbatim>\<open>_wait_for_completion\<close> returns; if \<open>s\<close> is
  \<^verbatim>\<open>failed\<close> or \<^verbatim>\<open>error\<close>, it raises the \<^verbatim>\<open>RuntimeError\<close> of a failed job.  In both
  cases it stops at once: \<open>k + 1\<close> requests were sent and \<open>k\<close> sleeps made, whatever
  number of attempts is left, so there is no sleep and no request after that response.
\<close>

theorem wait_for_completion_ends_at_terminal_status:
  assumes "0 \<le> retry_interval" and "int k < max_retries"
    and "\<forall>i<k. \<exists>r. server w (length (sent w) + i) (training_request (job_client job)) = Some r
                   \<and> job_pending (job_id job) r"
    and "server w (length (sent w) + k) (training_request (job_client job)) = Some r"
    and "reported_status ''content'' ''jobName'' (job_id job) r = Some (Some s)"
  shows "(s = JStr ''succeeded'' \<longrightarrow>
            wait_for_completion max_retries retry_interval job w =
              (Inr (), job,
               w\<lparr>sent := sent w @ replicate (Suc k) (training_request (job_client job)),
                 slept := slept w @ replicate k retry_interval\<rparr>))
       \<and> (s = JStr ''failed'' \<or> s = JStr ''error'' \<longrightarrow>
            wait_for_completion max_retries retry_interval job w =
              (Inl (RuntimeError Msg_finetune_failed), job,
               w\<lparr>sent := sent w @ replicate (Suc k) (training_request (job_client job)),
                 slept := slept w @ replicate k retry_interval\<rparr>))"
proof -
  define n where "n = nat max_retries - Suc k"
  from assms(2) have n: "nat max_retries = k + Suc n"
    unfolding n_def by linarith
  let ?w = "w\<lparr>sent := sent w @ replicate k (training_request (job_client job)),
               slept := slept w @ replicate k retry_interval\<rparr>"
  have srv: "server ?w (length (sent ?w)) (training_request (job_client job)) = Some r"
    using assms(4) by simp
  have pre: "wait_for_completion max_retries retry_interval job w =
        wait_for_completion_loop (Suc n) retry_interval job ?w"
    using wait_for_completion_loop_pending [OF assms(1,3), of "Suc n"] n
    by (simp add: wait_for_completion_def del: wait_for_completion_loop.simps)
  have app: "replicate k (training_request (job_client job)) @ [training_request (job_client job)]
         = replicate (Suc k) (training_request (job_client job))"
    by (simp add: replicate_append_same)
  show ?thesis
  proof (intro conjI impI)
    assume s: "s = JStr ''succeeded''"
    with wait_for_completion_step_terminal [OF srv, of s n retry_interval] assms(5) pre app
    show "wait_for_completion max_retries retry_interval job w =
              (Inr (), job,
               w\<lparr>sent := sent w @ replicate (Suc k) (training_request (job_client job)),
                 slept := slept w @ replicate k retry_interval\<rparr>)"
      by (simp del: wait_for_completion_loop.simps replicate.simps)
  next
    assume s: "s = JStr ''failed'' \<or> s = JStr ''error''"
    with wait_for_completion_step_terminal [OF srv, of s n retry_interval] assms(5) pre app
    show "wait_for_completion max_retries retry_interval job w =
              (Inl (RuntimeError Msg_finetune_failed), job,
               w\<lparr>sent := sent w @ replicate (Suc k) (training_request (job_client job)),
                 slept := slept w @ replicate k retry_interval\<rparr>)"
      by (auto simp del: wait_for_completion_loop.simps replicate.simps)
  qed
qed

lemma wait_for_completion_times_out:
  assumes "0 \<le> retry_interval"
    and "\<forall>i<nat max_retries.
           \<exists>r. server w (length (sent w) + i) (training_request (job_client job)) = Some r
              \<and> job_pending (job_id job) r"
  shows "wait_for_completion max_retries retry_interval job w =
           (Inl (TimeoutError Msg_finetune_timeout), job,
            w\<lparr>sent := sent w @ replicate (nat max_retries) (training_request (job_client job)),
              slept := slept w @ replicate (nat max_retries) retry_interval\<rparr>)"
  using wait_for_completion_loop_pending [OF assms, of 0]
  by (simp add: wait_for_completion_def)


theorem wait_for_completion_ends_at_terminal_status_witness:
  "wait_for_completion 60 30 example_job
     (example_world
        (scripted [training_reply [job_entry ''job'' ''running''],
                   training_reply [job_entry ''old'' ''failed'', job_entry ''job'' ''succeeded'']])
        [] [])
   = (Inr (), example_job,
      (example_world
        (scripted [training_reply [job_entry ''job'' ''running''],
                   training_reply [job_entry ''old'' ''failed'', job_entry ''job'' ''succeeded'']])
        [] [])
      \<lparr>sent := replicate 2 (training_request example_client), slept := [30]\<rparr>)
   \<and> wait_for_completion 60 30 example_job
     (example_world
        (scripted [training_reply [job_entry ''job'' ''running''],
                   training_reply [job_entry ''old'' ''succeeded'', job_entry ''job'' ''failed'']])
        [] [])
   = (Inl (RuntimeError Msg_finetune_failed), example_job,
      (example_world
        (scripted [training_reply [job_entry ''job'' ''running''],
                   training_reply [job_entry ''old'' ''succeeded'', job_entry ''job'' ''failed'']])
        [] [])
      \<lparr>sent := replicate 2 (training_request example_client), slept := [30]\<rparr>)"
proof -
  let ?w1 = "example_world
        (scripted [training_reply [job_entry ''job'' ''running''],
                   training_reply [job_entry ''old'' ''failed'', job_entry ''job'' ''succeeded'']])
        [] []"
  let ?w2 = "example_world
        (scripted [training_reply [job_entry ''job'' ''running''],
                   training_reply [job_entry ''old'' ''succeeded'', job_entry ''job'' ''failed'']])
        [] []"
  let ?r1 = "Response (Some (JObj [(''content'',
               JList [job_entry ''old'' ''failed'', job_entry ''job'' ''succeeded''])]))"
  let ?r2 = "Response (Some (JObj [(''content'',
               JList [job_entry ''old'' ''succeeded'', job_entry ''job'' ''failed''])]))"
  have p1: "\<forall>i<1. \<exists>r. server ?w1 (length (sent ?w1) + i)
                 (training_request (job_client example_job)) = Some r
               \<and> job_pending (job_id example_job) r"
    by (simp add: example_defs vocabulary_defs)
  have p2: "\<forall>i<1. \<exists>r. server ?w2 (length (sent ?w2) + i)
                 (training_request (job_client example_job)) = Some r
               \<and> job_pending (job_id example_job) r"
    by (simp add: example_defs vocabulary_defs)
  have l1: "server ?w1 (length (sent ?w1) + 1) (training_request (job_client example_job))
              = Some ?r1"
    by (simp add: example_defs)
  have l2: "server ?w2 (length (sent ?w2) + 1) (training_request (job_client example_job))
              = Some ?r2"
    by (simp add: example_defs)
  have s1: "reported_status ''content'' ''jobName'' (job_id example_job) ?r1
              = Some (Some (JStr ''succeeded''))"
    by (simp add: example_defs vocabulary_defs)
  have s2: "reported_status ''content'' ''jobName'' (job_id example_job) ?r2
              = Some (Some (JStr ''failed''))"
    by (simp add: example_defs vocabulary_defs)
  from wait_for_completion_ends_at_terminal_status [OF _ _ p1 l1 s1, of 30 60]
       wait_for_completion_ends_at_terminal_status [OF _ _ p2 l2 s2, of 30 60]
  show ?thesis by (simp add: example_defs numeral_2_eq_2)
qed
section \<open>Both polling loops: running out of attempts\<close>

text \<open>
  Claim C5: a listing without an entry for the identifier leaves the service, or the
  job, pending.  When each of the \<^verbatim>\<open>max_retries\<close> polls is answered with a listing that
  leaves it pending (no entry, or an entry with a status that ends nothing), the loop
  ends with its \<^verbatim>\<open>TimeoutError\<close> after exactly \<^verbatim>\<open>max_retries\<close> requests and as many
  sleeps.  \<^verbatim>\<open>wait_until_complete\<close> of either controller polls with the default of 60
  attempts and raises the same error after 60 such answers.
\<close>

theorem polling_times_out_after_max_retries:
  "(reported_status ''data'' ''service_name'' (service_name svc) r = Some None
      \<longrightarrow> service_pending (service_name svc) r)
   \<and> (reported_status ''content'' ''jobName'' (job_id job) r = Some None
      \<longrightarrow> job_pending (job_id job) r)
   \<and> (0 \<le> retry_interval \<and>
       (\<forall>i<nat max_retries.
          \<exists>r. server w (length (sent w) + i) (status_request (client svc)) = Some r
             \<and> service_pending (service_name svc) r)
      \<longrightarrow> wait_for_ready max_retries retry_interval svc w =
           (Inl (TimeoutError Msg_service_timeout), svc,
            w\<lparr>sent := sent w @ replicate (nat max_retries) (status_request (client svc)),
              slept := slept w @ replicate (nat max_retries) retry_interval\<rparr>))
   \<and> (0 \<le> retry_interval \<and>
       (\<forall>i<nat max_retries.
          \<exists>r. server w (length (sent w) + i) (training_request (job_client job)) = Some r
             \<and> job_pending (job_id job) r)
      \<longrightarrow> wait_for_completion max_retries retry_interval job w =
           (Inl (TimeoutError Msg_finetune_timeout), job,
            w\<lparr>sent := sent w @ replicate (nat max_retries) (training_request (job_client job)),
              slept := slept w @ replicate (nat max_retries) retry_interval\<rparr>))
   \<and> ((\<forall>i<60.
          \<exists>r. server w (length (sent w) + i) (status_request (client svc)) = Some r
             \<and> service_pending (service_name svc) r)
      \<longrightarrow> wait_until_complete svc w =
           (Inl (TimeoutError Msg_service_timeout), svc,
            w\<lparr>sent := sent w @ replicate 60 (status_request (client svc)),
              slept := slept w @ replicate 60 30\<rparr>))
   \<and> ((\<forall>i<60.
          \<exists>r. server w (length (sent w) + i) (training_request (job_client job)) = Some r
             \<and> job_pending (job_id job) r)
      \<longrightarrow> FinetuneJob_wait_until_complete loads job w =
           (Inl (TimeoutError Msg_finetune_timeout), job,
            w\<lparr>sent := sent w @ replicate 60 (training_request (job_client job)),
              slept := slept w @ replicate 60 30\<rparr>))"
proof (intro conjI impI)
  assume "reported_status ''data'' ''service_name'' (service_name svc) r = Some None"
  then show "service_pending (service_name svc) r"
    by (simp add: service_pending_def)
next
  assume "reported_status ''content'' ''jobName'' (job_id job) r = Some None"
  then show "job_pending (job_id job) r"
    by (simp add: job_pending_def)
next
  assume "0 \<le> retry_interval \<and>
       (\<forall>i<nat max_retries.
          \<exists>r. server w (length (sent w) + i) (status_request (client svc)) = Some r
             \<and> service_pending (service_name svc) r)"
  then show "wait_for_ready max_retries retry_interval svc w =
           (Inl (TimeoutError Msg_service_timeout), svc,
            w\<lparr>sent := sent w @ replicate (nat max_retries) (status_request (client svc)),
              slept := slept w @ replicate (nat max_retries) retry_interval\<rparr>)"
    using wait_for_ready_times_out by blast
next
  assume "0 \<le> retry_interval \<and>
       (\<forall>i<nat max_retries.
          \<exists>r. server w (length (sent w) + i) (training_request (job_client job)) = Some r
             \<and> job_pending (job_id job) r)"
  then show "wait_for_completion max_retries retry_interval job w =
           (Inl (TimeoutError Msg_finetune_timeout), job,
            w\<lparr>sent := sent w @ replicate (nat max_retries) (training_request (job_client job)),
              slept := slept w @ replicate (nat max_retries) retry_interval\<rparr>)"
    using wait_for_completion_times_out by blast
next
  assume a: "\<forall>i<60.
          \<exists>r. server w (length (sent w) + i) (status_request (client svc)) = Some r
             \<and> service_pending (service_name svc) r"
  have "wait_for_ready 60 30 svc w =
           (Inl (TimeoutError Msg_service_timeout), svc,
            w\<lparr>sent := sent w @ replicate (nat 60) (status_request (client svc)),
              slept := slept w @ replicate (nat 60) 30\<rparr>)"
    by (rule wait_for_ready_times_out) (use a in simp_all)
  then show "wait_until_complete svc w =
           (Inl (TimeoutError Msg_service_timeout), svc,
            w\<lparr>sent := sent w @ replicate 60 (status_request (client svc)),
              slept := slept w @ replicate 60 30\<rparr>)"
    by (simp add: wait_until_complete_def)
next
  assume a: "\<forall>i<60.
          \<exists>r. server w (length (sent w) + i) (training_request (job_client job)) = Some r
             \<and> job_pending (job_id job) r"
  have "wait_for_completion 60 30 job w =
           (Inl (TimeoutError Msg_finetune_timeout), job,
            w\<lparr>sent := sent w @ replicate (nat 60) (training_request (job_client job)),
              slept := slept w @ replicate (nat 60) 30\<rparr>)"
    by (rule wait_for_completion_times_out) (use a in simp_all)
  then show "FinetuneJob_wait_until_complete loads job w =
           (Inl (TimeoutError Msg_finetune_timeout), job,
            w\<lparr>sent := sent w @ replicate 60 (training_request (job_client job)),
              slept := slept w @ replicate 60 30\<rparr>)"
    by (simp add: FinetuneJob_wait_until_complete_def)
qed

theorem polling_times_out_after_max_retries_witness:
  "wait_for_ready 2 30 example_service (example_world (always (status_reply [])) [] [])
     = (Inl (TimeoutError Msg_service_timeout), example_service,
        (example_world (always (status_reply [])) [] [])
        \<lparr>sent := replicate 2 (status_request example_client), slept := [30, 30]\<rparr>)
   \<and> wait_for_completion 2 30 example_job
        (example_world (always (training_reply [job_entry ''job'' ''running''])) [] [])
     = (Inl (TimeoutError Msg_finetune_timeout), example_job,
        (example_world (always (training_reply [job_entry ''job'' ''running''])) [] [])
        \<lparr>sent := replicate 2 (training_request example_client), slept := [30, 30]\<rparr>)
   \<and> fst (wait_until_complete example_service
            (example_world (always (status_reply [service_entry ''svc'' ''deploying'' []])) [] []))
     = Inl (TimeoutError Msg_service_timeout)
   \<and> fst (FinetuneJob_wait_until_complete Map.empty example_job
            (example_world (always (training_reply [])) [] []))
     = Inl (TimeoutError Msg_finetune_timeout)"
proof -
  let ?w1 = "example_world (always (status_reply [])) [] []"
  let ?w2 = "example_world (always (training_reply [job_entry ''job'' ''running''])) [] []"
  let ?w3 = "example_world (always (status_reply [service_entry ''svc'' ''deploying'' []])) [] []"
  let ?w4 = "example_world (always (training_reply [])) [] []"
  have h1: "(0::int) \<le> 30 \<and> (\<forall>i<nat 2.
          \<exists>r. server ?w1 (length (sent ?w1) + i) (status_request (client example_service)) = Some r
             \<and> service_pending (service_name example_service) r)"
    by (simp add: example_defs vocabulary_defs)
  have h2: "(0::int) \<le> 30 \<and> (\<forall>i<nat 2.
          \<exists>r. server ?w2 (length (sent ?w2) + i) (training_request (job_client example_job)) = Some r
             \<and> job_pending (job_id example_job) r)"
    by (simp add: example_defs vocabulary_defs)
  have h3: "\<forall>i<60.
          \<exists>r. server ?w3 (length (sent ?w3) + i) (status_request (client example_service)) = Some r
             \<and> service_pending (service_name example_service) r"
    by (simp add: example_defs vocabulary_defs)
  have h4: "\<forall>i<60.
          \<exists>r. server ?w4 (length (sent ?w4) + i) (training_request (job_client example_job)) = Some r
             \<and> job_pending (job_id example_job) r"
    by (simp add: example_defs vocabulary_defs)
  from h1 h2 h3 h4
    polling_times_out_after_max_retries
      [of example_service _ example_job 30 2 ?w1]
    polling_times_out_after_max_retries
      [of example_service _ example_job 30 2 ?w2]
    polling_times_out_after_max_retries
      [of example_service _ example_job 30 2 ?w3]
    polling_times_out_after_max_retries
      [of example_service _ example_job 30 2 ?w4 Map.empty]
  show ?thesis by (simp add: example_defs numeral_2_eq_2)
qed

section \<open>Fine-tune job controller: resolving the adapter\<close>

lemma adapter_loop_skip:
  assumes "undecodable loads a \<or> of_other_job loads jid a"
  shows "adapter_loop loads jid (a # adapters) = adapter_loop loads jid adapters"
  using assms
  by (auto simp: undecodable_def of_other_job_def finetune_id_of_def meta_text_def
        split: json.splits option.splits)

lemma adapter_loop_skip_all:
  assumes "\<forall>a\<in>set pre. undecodable loads a \<or> of_other_job loads jid a"
  shows "adapter_loop loads jid (pre @ rest) = adapter_loop loads jid rest"
  using assms
proof (induction pre)
  case Nil
  then show ?case by simp
next
  case (Cons a pre)
  then have "adapter_loop loads jid (a # (pre @ rest)) = adapter_loop loads jid (pre @ rest)"
    by (intro adapter_loop_skip) simp
  with Cons show ?case by simp
qed

lemma adapter_loop_match:
  assumes "matches_job loads jid a" and "py_getitem a ''id'' = Inr i"
  shows "adapter_loop loads jid (a # adapters) = Inr (Some i)"
  using assms
  by (auto simp: matches_job_def finetune_id_of_def meta_text_def
        split: json.splits option.splits)

lemma adapter_loop_none:
  "adapter_loop loads jid adapters = Inr None \<Longrightarrow> \<forall>a\<in>set adapters. \<not> matches_job loads jid a"
proof (induction adapters)
  case Nil
  then show ?case by simp
next
  case (Cons a adapters)
  from Cons.prems have "\<not> matches_job loads jid a \<and> adapter_loop loads jid adapters = Inr None"
    by (cases a)
       (auto simp: matches_job_def finetune_id_of_def meta_text_def
          split: json.splits option.splits if_splits sum.splits)
  with Cons.IH show ?case by simp
qed

lemma adapter_loop_no_ValueError: "adapter_loop loads jid adapters \<noteq> Inl (ValueError m)"
proof (induction adapters)
  case Nil
  then show ?case by simp
next
  case (Cons a adapters)
  show ?case
  proof (cases "py_get a ''meta'' (JStr ''{}'')")
    case (Inl e)
    then have "e = AttributeError" by (cases a) (auto split: option.splits)
    with Inl show ?thesis by simp
  next
    case (Inr mt)
    show ?thesis
    proof (cases mt)
      case (JStr s)
      show ?thesis
      proof (cases "loads s")
        case None
        with Inr JStr Cons.IH show ?thesis by simp
      next
        case (Some meta)
        show ?thesis
        proof (cases "py_get meta ''finetune_id'' JNull")
          case (Inl e)
          then have "e = AttributeError" by (cases meta) (auto split: option.splits)
          with Inl Inr JStr Some show ?thesis by simp
        next
          case f: (Inr f)
          show ?thesis
          proof (cases "py_eq f jid")
            case True
            have "py_getitem a ''id'' \<noteq> Inl (ValueError m)"
              by (cases a) (auto split: option.splits)
            with True f Inr JStr Some show ?thesis
              by (cases "py_getitem a ''id''") auto
          next
            case False
            with f Inr JStr Some Cons.IH show ?thesis by simp
          qed
        qed
      qed
    qed (use Inr in simp_all)
  qed
qed

lemma get_adapter_id_listing:
  assumes "server w (length (sent w)) (adapters_request (job_client job)) = Some r"
    and "listing ''user_list'' r = Some adapters"
  shows "get_adapter_id loads job w =
           (case adapter_loop loads (job_id job) adapters of
              Inl e \<Rightarrow> (Inl e, job, w\<lparr>sent := sent w @ [adapters_request (job_client job)]\<rparr>)
            | Inr (Some i) \<Rightarrow>
                (Inr (), job\<lparr>adapter_id := i\<rparr>,
                 w\<lparr>sent := sent w @ [adapters_request (job_client job)]\<rparr>)
            | Inr None \<Rightarrow>
                (Inl (ValueError Msg_adapter_not_found), job,
                 w\<lparr>sent := sent w @ [adapters_request (job_client job)]\<rparr>))"
  using assms(1) listing_chain [OF assms(2), of "adapter_loop loads (job_id job)"]
  by (simp add: get_adapter_id_def make_request_simp adapters_request_def
        split: sum.splits option.splits)

text \<open>
  Claim C6 says that, for every adapter listing, \<^verbatim>\<open>_get_adapter_id\<close> skips all malformed
  metadata entries without failing.  The \<^verbatim>\<open>except\<close> clause catches \<^verbatim>\<open>JSONDecodeError\<close>
  alone.  An adapter whose \<^verbatim>\<open>meta\<close> is \<^verbatim>\<open>null\<close> makes \<^verbatim>\<open>json.loads\<close> raise
  \<^verbatim>\<open>TypeError\<close>, and one whose metadata decodes to a list makes \<^verbatim>\<open>meta.get\<close> raise
  \<^verbatim>\<open>AttributeError\<close>; either ends the scan although a matching adapter follows.
\<close>

theorem get_adapter_id_bad_meta_counterexample:
  "get_adapter_id example_loads example_job
     (example_world
        (scripted [adapters_reply
           [JObj [(''id'', JStr ''adapter-1''), (''meta'', JNull)],
            adapter_entry ''adapter-2'' (meta_for ''job'')]]) [] [])
   = (Inl TypeError, example_job,
      (example_world
        (scripted [adapters_reply
           [JObj [(''id'', JStr ''adapter-1''), (''meta'', JNull)],
            adapter_entry ''adapter-2'' (meta_for ''job'')]]) [] [])
      \<lparr>sent := [adapters_request example_client]\<rparr>)
   \<and> get_adapter_id example_loads example_job
     (example_world
        (scripted [adapters_reply
           [adapter_entry ''adapter-1'' ''[]'',
            adapter_entry ''adapter-2'' (meta_for ''job'')]]) [] [])
   = (Inl AttributeError, example_job,
      (example_world
        (scripted [adapters_reply
           [adapter_entry ''adapter-1'' ''[]'',
            adapter_entry ''adapter-2'' (meta_for ''job'')]]) [] [])
      \<lparr>sent := [adapters_request example_client]\<rparr>)"
  by (simp add: get_adapter_id_def make_request_simp adapters_request_def example_world_def
        example_job_def scripted_def adapters_reply_def adapter_entry_def example_loads_def
        meta_for_def)

text \<open>
  Claim C6 as amended, for a request answered with a listing of adapters under
  \<^verbatim>\<open>user_list\<close>.  Adapters whose metadata text does not decode as JSON are skipped, as are
  those of another job.  When the adapters before the first one that matches the job are
  all of these two kinds, \<^verbatim>\<open>_get_adapter_id\<close> sets \<^verbatim>\<open>adapter_id\<close> to the \<^verbatim>\<open>id\<close> of that
  first match, whatever follows it.  When all adapters of the listing are of these two
  kinds, it raises the \<^verbatim>\<open>ValueError\<close> of an adapter not found; and whenever it raises
  that error, no adapter of the listing matches the job.
\<close>

theorem get_adapter_id_first_match:
  assumes "server w (length (sent w)) (adapters_request (job_client job)) = Some r"
    and "listing ''user_list'' r = Some adapters"
  shows "(\<forall>pre a post i.
            adapters = pre @ a # post
            \<and> (\<forall>p\<in>set pre. undecodable loads p \<or> of_other_job loads (job_id job) p)
            \<and> matches_job loads (job_id job) a \<and> py_getitem a ''id'' = Inr i
            \<longrightarrow> get_adapter_id loads job w =
                  (Inr (), job\<lparr>adapter_id := i\<rparr>,
                   w\<lparr>sent := sent w @ [adapters_request (job_client job)]\<rparr>))
       \<and> ((\<forall>p\<in>set adapters. undecodable loads p \<or> of_other_job loads (job_id job) p)
            \<longrightarrow> get_adapter_id loads job w =
                  (Inl (ValueError Msg_adapter_not_found), job,
                   w\<lparr>sent := sent w @ [adapters_request (job_client job)]\<rparr>))
       \<and> (fst (get_adapter_id loads job w) = Inl (ValueError Msg_adapter_not_found)
            \<longrightarrow> (\<forall>a\<in>set adapters. \<not> matches_job loads (job_id job) a))"
proof (intro conjI allI impI)
  fix pre a post i
  assume h: "adapters = pre @ a # post
            \<and> (\<forall>p\<in>set pre. undecodable loads p \<or> of_other_job loads (job_id job) p)
            \<and> matches_job loads (job_id job) a \<and> py_getitem a ''id'' = Inr i"
  then have "adapter_loop loads (job_id job) adapters = Inr (Some i)"
    using adapter_loop_skip_all [of pre loads "job_id job" "a # post"]
      adapter_loop_match [of loads "job_id job" a i post]
    by simp
  then show "get_adapter_id loads job w =
                  (Inr (), job\<lparr>adapter_id := i\<rparr>,
                   w\<lparr>sent := sent w @ [adapters_request (job_client job)]\<rparr>)"
    by (simp add: get_adapter_id_listing [OF assms])
next
  assume "\<forall>p\<in>set adapters. undecodable loads p \<or> of_other_job loads (job_id job) p"
  then have "adapter_loop loads (job_id job) adapters = Inr None"
    using adapter_loop_skip_all [of adapters loads "job_id job" "[]"] by simp
  then show "get_adapter_id loads job w =
                  (Inl (ValueError Msg_adapter_not_found), job,
                   w\<lparr>sent := sent w @ [adapters_request (job_client job)]\<rparr>)"
    by (simp add: get_adapter_id_listing [OF assms])
next
  assume "fst (get_adapter_id loads job w) = Inl (ValueError Msg_adapter_not_found)"
  then have "adapter_loop loads (job_id job) adapters = Inr None"
    using adapter_loop_no_ValueError [of loads "job_id job" adapters Msg_adapter_not_found]
    by (auto simp: get_adapter_id_listing [OF assms] split: sum.splits option.splits)
  then show "\<forall>a\<in>set adapters. \<not> matches_job loads (job_id job) a"
    by (rule adapter_loop_none)
qed

lemmas adapter_defs =
  undecodable_def of_other_job_def matches_job_def finetune_id_of_def meta_text_def
  adapter_entry_def adapters_reply_def example_loads_def meta_for_def adapters_request_def

theorem get_adapter_id_first_match_witness:
  "get_adapter_id example_loads example_job
     (example_world
        (scripted [adapters_reply
           [adapter_entry ''adapter-1'' ''not json'',
            adapter_entry ''adapter-2'' (meta_for ''old''),
            JObj [(''id'', JStr ''adapter-3'')],
            adapter_entry ''adapter-4'' (meta_for ''job''),
            adapter_entry ''adapter-5'' (meta_for ''job'')]]) [] [])
   = (Inr (), example_job\<lparr>adapter_id := JStr ''adapter-4''\<rparr>,
      (example_world
        (scripted [adapters_reply
           [adapter_entry ''adapter-1'' ''not json'',
            adapter_entry ''adapter-2'' (meta_for ''old''),
            JObj [(''id'', JStr ''adapter-3'')],
            adapter_entry ''adapter-4'' (meta_for ''job''),
            adapter_entry ''adapter-5'' (meta_for ''job'')]]) [] [])
      \<lparr>sent := [adapters_request example_client]\<rparr>)
   \<and> fst (get_adapter_id example_loads example_job
       (example_world
          (scripted [adapters_reply
             [adapter_entry ''adapter-1'' ''not json'',
              adapter_entry ''adapter-2'' (meta_for ''old'')]]) [] []))
     = Inl (ValueError Msg_adapter_not_found)"
proof -
  let ?pre = "[adapter_entry ''adapter-1'' ''not json'',
               adapter_entry ''adapter-2'' (meta_for ''old''),
               JObj [(''id'', JStr ''adapter-3'')]]"
  let ?a = "adapter_entry ''adapter-4'' (meta_for ''job'')"
  let ?post = "[adapter_entry ''adapter-5'' (meta_for ''job'')]"
  let ?w = "example_world (scripted [adapters_reply (?pre @ ?a # ?post)]) [] []"
  let ?r = "Response (Some (JObj [(''user_list'', JList (?pre @ ?a # ?post))]))"
  let ?l2 = "[adapter_entry ''adapter-1'' ''not json'',
              adapter_entry ''adapter-2'' (meta_for ''old'')]"
  let ?w2 = "example_world (scripted [adapters_reply ?l2]) [] []"
  let ?r2 = "Response (Some (JObj [(''user_list'', JList ?l2)]))"
  have srv: "server ?w (length (sent ?w)) (adapters_request (job_client example_job)) = Some ?r"
    by (simp add: example_defs adapters_reply_def)
  have lst: "listing ''user_list'' ?r = Some (?pre @ ?a # ?post)"
    by (simp add: listing_def)
  have pre: "\<forall>p\<in>set ?pre. undecodable example_loads p
               \<or> of_other_job example_loads (job_id example_job) p"
    by (simp add: adapter_defs example_defs)
  have m: "matches_job example_loads (job_id example_job) ?a
           \<and> py_getitem ?a ''id'' = Inr (JStr ''adapter-4'')"
    by (simp add: adapter_defs example_defs)
  have srv2: "server ?w2 (length (sent ?w2)) (adapters_request (job_client example_job)) = Some ?r2"
    by (simp add: example_defs adapters_reply_def)
  have lst2: "listing ''user_list'' ?r2 = Some ?l2"
    by (simp add: listing_def)
  have all2: "\<forall>p\<in>set ?l2. undecodable example_loads p
               \<or> of_other_job example_loads (job_id example_job) p"
    by (simp add: adapter_defs example_defs)
  from get_adapter_id_first_match [OF srv lst, of example_loads] pre m
  have "get_adapter_id example_loads example_job ?w =
          (Inr (), example_job\<lparr>adapter_id := JStr ''adapter-4''\<rparr>,
           ?w\<lparr>sent := sent ?w @ [adapters_request (job_client example_job)]\<rparr>)"
    by blast
  moreover from get_adapter_id_first_match [OF srv2 lst2, of example_loads] all2
  have "fst (get_adapter_id example_loads example_job ?w2)
          = Inl (ValueError Msg_adapter_not_found)"
    by simp
  ultimately show ?thesis
    by (simp add: example_world_def example_job_def)
qed

section \<open>Deploying through the endpoint\<close>

lemma set_add_mem: "set_add v S = Inr S' \<Longrightarrow> set_mem v S'"
  by (auto simp: set_add_def set_mem_def list_ex_iff py_eq_refl_hashable split: if_splits)

lemma set_add_hashable: "hashable v \<Longrightarrow> \<exists>S'. set_add v S = Inr S'"
  by (simp add: set_add_def)

lemma deploy_unfold:
  "deploy svc model_config w =
     (case server w (length (sent w)) (deploy_request (client svc) model_config) of
        None \<Rightarrow>
          (Inl RequestException, svc,
           w\<lparr>sent := sent w @ [deploy_request (client svc) model_config]\<rparr>)
      | Some resp \<Rightarrow>
          (case and_then (response_json resp) (\<lambda>j. py_getitem j ''service_name'') of
             Inl e \<Rightarrow>
               (Inl e, svc, w\<lparr>sent := sent w @ [deploy_request (client svc) model_config]\<rparr>)
           | Inr name \<Rightarrow>
               (case set_add name (inference_services w) of
                  Inl e \<Rightarrow>
                    (Inl e, svc\<lparr>service_name := name\<rparr>,
                     w\<lparr>sent := sent w @ [deploy_request (client svc) model_config]\<rparr>)
                | Inr S \<Rightarrow>
                    (Inr (), svc\<lparr>service_name := name\<rparr>,
                     w\<lparr>sent := sent w @ [deploy_request (client svc) model_config],
                       inference_services := S\<rparr>))))"
  by (simp add: deploy_def make_request_simp deploy_request_def
        split: option.splits sum.splits)

lemma deploy_sent:
  "sent (snd (snd (deploy svc model_config w))) =
     sent w @ [deploy_request (client svc) model_config]"
  by (simp add: deploy_unfold split: option.splits sum.splits)

lemma deploy_success:
  assumes "server w (length (sent w)) (deploy_request (client svc) model_config)
             = Some (Response (Some j))"
    and "py_getitem j ''service_name'' = Inr name" and "hashable name"
  shows "fst (deploy svc model_config w) = Inr ()
       \<and> fst (snd (deploy svc model_config w)) = svc\<lparr>service_name := name\<rparr>
       \<and> set_mem name (inference_services (snd (snd (deploy svc model_config w))))"
proof -
  from set_add_hashable [OF assms(3)] obtain S where S: "set_add name (inference_services w) = Inr S"
    by blast
  from set_add_mem [OF S] S assms(1,2) show ?thesis
    by (simp add: deploy_unfold)
qed

lemma deploy_no_name:
  assumes "server w (length (sent w)) (deploy_request (client svc) model_config)
             = Some (Response (Some j))"
    and "py_getitem j ''service_name'' = Inl e"
  shows "deploy svc model_config w =
           (Inl e, svc, w\<lparr>sent := sent w @ [deploy_request (client svc) model_config]\<rparr>)"
  using assms by (simp add: deploy_unfold)

lemma deploy_succeeded:
  assumes "fst (deploy svc model_config w) = Inr u"
  shows "\<exists>j. server w (length (sent w)) (deploy_request (client svc) model_config)
               = Some (Response (Some j))
            \<and> py_getitem j ''service_name'' = Inr (service_name (fst (snd (deploy svc model_config w))))
            \<and> set_mem (service_name (fst (snd (deploy svc model_config w))))
                 (inference_services (snd (snd (deploy svc model_config w))))"
proof -
  from assms obtain resp where
    r: "server w (length (sent w)) (deploy_request (client svc) model_config) = Some resp"
    by (auto simp: deploy_unfold split: option.splits)
  obtain x where x: "resp = Response x" by (cases resp)
  with r assms obtain j where j: "resp = Response (Some j)"
    by (cases x) (auto simp: deploy_unfold)
  with r assms obtain name where n: "py_getitem j ''service_name'' = Inr name"
    by (auto simp: deploy_unfold split: sum.splits)
  with r j assms obtain S where S: "set_add name (inference_services w) = Inr S"
    by (auto simp: deploy_unfold split: sum.splits)
  from set_add_mem [OF S] r j n S show ?thesis
    by (simp add: deploy_unfold)
qed

lemma py_getitem_error: "py_getitem j k = Inl e \<Longrightarrow> e = KeyError \<or> e = TypeError"
  by (cases j) (auto split: option.splits)

lemma run_unfold:
  "run ep (JObj kvs) w =
     (case deploy (new_InferenceService (rp_client ep))
             (if py_truthy (case map_of kvs ''input'' of None \<Rightarrow> JNull | Some v \<Rightarrow> v)
              then JObj kvs else JObj [(''input'', JObj kvs)]) w of
        (Inl e, svc, w1) \<Rightarrow> (Inl e, w1)
      | (Inr u, svc, w1) \<Rightarrow> (Inr svc, w1))"
  by (simp add: run_def Let_def split: option.splits)

lemma run_sent:
  "sent (snd (run ep (JObj kvs) w)) =
     sent w @ [deploy_request (rp_client ep)
                (if py_truthy (case map_of kvs ''input'' of None \<Rightarrow> JNull | Some v \<Rightarrow> v)
                 then JObj kvs else JObj [(''input'', JObj kvs)])]"
proof -
  define body where
    "body = (if py_truthy (case map_of kvs ''input'' of None \<Rightarrow> JNull | Some v \<Rightarrow> v)
             then JObj kvs else JObj [(''input'', JObj kvs)])"
  have "sent (snd (run ep (JObj kvs) w)) =
          sent (snd (snd (deploy (new_InferenceService (rp_client ep)) body w)))"
    unfolding run_unfold body_def by (simp split: prod.splits sum.splits)
  also have "\<dots> = sent w @ [deploy_request (rp_client ep) body]"
    by (simp add: deploy_sent new_InferenceService_def)
  finally show ?thesis unfolding body_def .
qed

lemma run_fst:
  "fst (run ep (JObj kvs) w) =
     (case fst (deploy (new_InferenceService (rp_client ep))
             (if py_truthy (case map_of kvs ''input'' of None \<Rightarrow> JNull | Some v \<Rightarrow> v)
              then JObj kvs else JObj [(''input'', JObj kvs)]) w) of
        Inl e \<Rightarrow> Inl e
      | Inr u \<Rightarrow> Inr (fst (snd (deploy (new_InferenceService (rp_client ep))
             (if py_truthy (case map_of kvs ''input'' of None \<Rightarrow> JNull | Some v \<Rightarrow> v)
              then JObj kvs else JObj [(''input'', JObj kvs)]) w))))"
  unfolding run_unfold by (simp split: prod.splits sum.splits)

lemma run_snd:
  "snd (run ep (JObj kvs) w) =
     snd (snd (deploy (new_InferenceService (rp_client ep))
             (if py_truthy (case map_of kvs ''input'' of None \<Rightarrow> JNull | Some v \<Rightarrow> v)
              then JObj kvs else JObj [(''input'', JObj kvs)]) w))"
  unfolding run_unfold by (simp split: prod.splits sum.splits)

lemma deploy_request_inject: "deploy_request c b = deploy_request c b' \<Longrightarrow> b = b'"
  by (simp add: deploy_request_def build_request_def)

text \<open>
  Claim C2 says that every model configuration passed to the deploy operation is wrapped
  under an \<^verbatim>\<open>input\<close> key if not already nested.  \<^verbatim>\<open>InferenceService.deploy\<close> does not
  wrap: a configuration without the key is posted as it is.  \<^verbatim>\<open>Endpoint.run\<close>, which
  wraps, goes by the truth value under the key: a configuration that is already nested
  around an empty dictionary is wrapped once more.
\<close>

theorem deploy_posts_unwrapped_counterexample:
  "sent (snd (snd (deploy (new_InferenceService example_client)
       (JObj [(''model_id'', JStr ''m'')]) (example_world (scripted []) [] []))))
     = [deploy_request example_client (JObj [(''model_id'', JStr ''m'')])]
   \<and> sent (snd (run example_endpoint (JObj [(''input'', JObj [])])
       (example_world (scripted []) [] [])))
     = [deploy_request example_client (JObj [(''input'', JObj [(''input'', JObj [])])])]"
  by (simp add: deploy_sent run_sent new_InferenceService_def example_world_def
        example_endpoint_def)

text \<open>
  Claim C2 as amended.  \<^verbatim>\<open>Endpoint.run\<close> posts a dictionary whose \<^verbatim>\<open>input\<close> key holds a
  truthy value as it is, and posts every other dictionary (no \<^verbatim>\<open>input\<close> key, or a falsy
  value under it) wrapped under an \<^verbatim>\<open>input\<close> key; \<^verbatim>\<open>InferenceService.deploy\<close> posts the
  configuration it is given.  When the server answers the posted request with a JSON
  value that has a hashable \<^verbatim>\<open>service_name\<close>, the operation succeeds; whenever \<^verbatim>\<open>run\<close>
  succeeds, the \<^verbatim>\<open>service_name\<close> of the returned controller is the one of the server's
  answer and is in the cleanup set.  When the answer has no \<^verbatim>\<open>service_name\<close>, the
  subscript raises (\<^verbatim>\<open>KeyError\<close> for an object without the key, \<^verbatim>\<open>TypeError\<close> for a
  value that is not an object), the operation fails with that exception, and the
  cleanup set is unchanged.
\<close>

theorem run_deploys_configuration:
  "(map_of kvs ''input'' = None \<longrightarrow>
      sent (snd (run ep (JObj kvs) w)) =
        sent w @ [deploy_request (rp_client ep) (JObj [(''input'', JObj kvs)])])
   \<and> (\<forall>v. map_of kvs ''input'' = Some v \<and> py_truthy v \<longrightarrow>
        sent (snd (run ep (JObj kvs) w)) = sent w @ [deploy_request (rp_client ep) (JObj kvs)])
   \<and> (\<forall>body j name.
        sent (snd (run ep (JObj kvs) w)) = sent w @ [deploy_request (rp_client ep) body]
        \<and> server w (length (sent w)) (deploy_request (rp_client ep) body) = Some (Response (Some j))
        \<and> py_getitem j ''service_name'' = Inr name \<and> hashable name \<longrightarrow>
        fst (run ep (JObj kvs) w) =
          Inr \<lparr>client = rp_client ep, service_name = name, api_endpoint = JNull\<rparr>
        \<and> set_mem name (inference_services (snd (run ep (JObj kvs) w))))
   \<and> (\<forall>svc. fst (run ep (JObj kvs) w) = Inr svc \<longrightarrow>
        set_mem (service_name svc) (inference_services (snd (run ep (JObj kvs) w)))
        \<and> (\<exists>body j.
             sent (snd (run ep (JObj kvs) w)) = sent w @ [deploy_request (rp_client ep) body]
             \<and> server w (length (sent w)) (deploy_request (rp_client ep) body)
                 = Some (Response (Some j))
             \<and> py_getitem j ''service_name'' = Inr (service_name svc)))
   \<and> (\<forall>body j e.
        sent (snd (run ep (JObj kvs) w)) = sent w @ [deploy_request (rp_client ep) body]
        \<and> server w (length (sent w)) (deploy_request (rp_client ep) body) = Some (Response (Some j))
        \<and> py_getitem j ''service_name'' = Inl e \<longrightarrow>
        fst (run ep (JObj kvs) w) = Inl e \<and> (e = KeyError \<or> e = TypeError)
        \<and> inference_services (snd (run ep (JObj kvs) w)) = inference_services w)
   \<and> (\<forall>body m.
        sent (snd (run ep (JObj kvs) w)) = sent w @ [deploy_request (rp_client ep) body]
        \<and> server w (length (sent w)) (deploy_request (rp_client ep) body)
            = Some (Response (Some (JObj m)))
        \<and> map_of m ''service_name'' = None \<longrightarrow>
        fst (run ep (JObj kvs) w) = Inl KeyError)
   \<and> (\<forall>v. map_of kvs ''input'' = Some v \<and> \<not> py_truthy v \<longrightarrow>
        sent (snd (run ep (JObj kvs) w)) =
          sent w @ [deploy_request (rp_client ep) (JObj [(''input'', JObj kvs)])])
   \<and> (sent (snd (snd (deploy svc model_config w))) =
        sent w @ [deploy_request (client svc) model_config])
   \<and> (\<forall>j name.
        server w (length (sent w)) (deploy_request (client svc) model_config)
          = Some (Response (Some j))
        \<and> py_getitem j ''service_name'' = Inr name \<and> hashable name \<longrightarrow>
        fst (deploy svc model_config w) = Inr ()
        \<and> fst (snd (deploy svc model_config w)) = svc\<lparr>service_name := name\<rparr>
        \<and> set_mem name (inference_services (snd (snd (deploy svc model_config w)))))
   \<and> (\<forall>j e.
        server w (length (sent w)) (deploy_request (client svc) model_config)
          = Some (Response (Some j))
        \<and> py_getitem j ''service_name'' = Inl e \<longrightarrow>
        deploy svc model_config w =
          (Inl e, svc, w\<lparr>sent := sent w @ [deploy_request (client svc) model_config]\<rparr>)
        \<and> (e = KeyError \<or> e = TypeError))"
proof -
  define cfg where
    "cfg = (if py_truthy (case map_of kvs ''input'' of None \<Rightarrow> JNull | Some v \<Rightarrow> v)
            then JObj kvs else JObj [(''input'', JObj kvs)])"
  define svc0 where "svc0 = new_InferenceService (rp_client ep)"
  have c0: "client svc0 = rp_client ep"
    by (simp add: svc0_def new_InferenceService_def)
  have sent_eq: "sent (snd (run ep (JObj kvs) w)) = sent w @ [deploy_request (rp_client ep) cfg]"
    unfolding cfg_def by (rule run_sent)
  have fst_eq: "fst (run ep (JObj kvs) w) =
     (case fst (deploy svc0 cfg w) of Inl e \<Rightarrow> Inl e
      | Inr u \<Rightarrow> Inr (fst (snd (deploy svc0 cfg w))))"
    unfolding cfg_def svc0_def by (rule run_fst)
  have snd_eq: "snd (run ep (JObj kvs) w) = snd (snd (deploy svc0 cfg w))"
    unfolding cfg_def svc0_def by (rule run_snd)
  have body_eq: "body = cfg"
    if "sent (snd (run ep (JObj kvs) w)) = sent w @ [deploy_request (rp_client ep) body]" for body
    using that sent_eq deploy_request_inject [of "rp_client ep" cfg body] by simp
  have p1: "map_of kvs ''input'' = None \<longrightarrow>
      sent (snd (run ep (JObj kvs) w)) =
        sent w @ [deploy_request (rp_client ep) (JObj [(''input'', JObj kvs)])]"
    using sent_eq by (simp add: cfg_def)
  have p2: "\<forall>v. map_of kvs ''input'' = Some v \<and> py_truthy v \<longrightarrow>
        sent (snd (run ep (JObj kvs) w)) = sent w @ [deploy_request (rp_client ep) (JObj kvs)]"
    using sent_eq by (simp add: cfg_def)
  have p3: "\<forall>body j name.
        sent (snd (run ep (JObj kvs) w)) = sent w @ [deploy_request (rp_client ep) body]
        \<and> server w (length (sent w)) (deploy_request (rp_client ep) body) = Some (Response (Some j))
        \<and> py_getitem j ''service_name'' = Inr name \<and> hashable name \<longrightarrow>
        fst (run ep (JObj kvs) w) =
          Inr \<lparr>client = rp_client ep, service_name = name, api_endpoint = JNull\<rparr>
        \<and> set_mem name (inference_services (snd (run ep (JObj kvs) w)))"
  proof (intro allI impI)
    fix body j name
    assume h: "sent (snd (run ep (JObj kvs) w)) = sent w @ [deploy_request (rp_client ep) body]
        \<and> server w (length (sent w)) (deploy_request (rp_client ep) body) = Some (Response (Some j))
        \<and> py_getitem j ''service_name'' = Inr name \<and> hashable name"
    then have b: "body = cfg" using body_eq by blast
    from h b c0 have "server w (length (sent w)) (deploy_request (client svc0) cfg)
        = Some (Response (Some j))" by simp
    from deploy_success [OF this, of name] h
    show "fst (run ep (JObj kvs) w) =
          Inr \<lparr>client = rp_client ep, service_name = name, api_endpoint = JNull\<rparr>
        \<and> set_mem name (inference_services (snd (run ep (JObj kvs) w)))"
      by (simp add: fst_eq snd_eq svc0_def new_InferenceService_def)
  qed
  have p4: "\<forall>svc. fst (run ep (JObj kvs) w) = Inr svc \<longrightarrow>
        set_mem (service_name svc) (inference_services (snd (run ep (JObj kvs) w)))
        \<and> (\<exists>body j.
             sent (snd (run ep (JObj kvs) w)) = sent w @ [deploy_request (rp_client ep) body]
             \<and> server w (length (sent w)) (deploy_request (rp_client ep) body)
                 = Some (Response (Some j))
             \<and> py_getitem j ''service_name'' = Inr (service_name svc))"
  proof (intro allI impI)
    fix svc assume s: "fst (run ep (JObj kvs) w) = Inr svc"
    then obtain u where u: "fst (deploy svc0 cfg w) = Inr u"
      and svc: "svc = fst (snd (deploy svc0 cfg w))"
      by (auto simp: fst_eq split: sum.splits)
    from deploy_succeeded [OF u] svc c0 sent_eq snd_eq
    show "set_mem (service_name svc) (inference_services (snd (run ep (JObj kvs) w)))
        \<and> (\<exists>body j.
             sent (snd (run ep (JObj kvs) w)) = sent w @ [deploy_request (rp_client ep) body]
             \<and> server w (length (sent w)) (deploy_request (rp_client ep) body)
                 = Some (Response (Some j))
             \<and> py_getitem j ''service_name'' = Inr (service_name svc))"
      by auto
  qed
  have p5: "\<forall>body j e.
        sent (snd (run ep (JObj kvs) w)) = sent w @ [deploy_request (rp_client ep) body]
        \<and> server w (length (sent w)) (deploy_request (rp_client ep) body) = Some (Response (Some j))
        \<and> py_getitem j ''service_name'' = Inl e \<longrightarrow>
        fst (run ep (JObj kvs) w) = Inl e \<and> (e = KeyError \<or> e = TypeError)
        \<and> inference_services (snd (run ep (JObj kvs) w)) = inference_services w"
  proof (intro allI impI)
    fix body j e
    assume h: "sent (snd (run ep (JObj kvs) w)) = sent w @ [deploy_request (rp_client ep) body]
        \<and> server w (length (sent w)) (deploy_request (rp_client ep) body) = Some (Response (Some j))
        \<and> py_getitem j ''service_name'' = Inl e"
    then have b: "body = cfg" using body_eq by blast
    from h b c0 have "server w (length (sent w)) (deploy_request (client svc0) cfg)
        = Some (Response (Some j))" by simp
    from deploy_no_name [OF this, of e] h py_getitem_error [of j "''service_name''" e]
    show "fst (run ep (JObj kvs) w) = Inl e \<and> (e = KeyError \<or> e = TypeError)
        \<and> inference_services (snd (run ep (JObj kvs) w)) = inference_services w"
      by (simp add: fst_eq snd_eq)
  qed
  have p6: "\<forall>body m.
        sent (snd (run ep (JObj kvs) w)) = sent w @ [deploy_request (rp_client ep) body]
        \<and> server w (length (sent w)) (deploy_request (rp_client ep) body)
            = Some (Response (Some (JObj m)))
        \<and> map_of m ''service_name'' = None \<longrightarrow>
        fst (run ep (JObj kvs) w) = Inl KeyError"
  proof (intro allI impI)
    fix body m
    assume h: "sent (snd (run ep (JObj kvs) w)) = sent w @ [deploy_request (rp_client ep) body]
        \<and> server w (length (sent w)) (deploy_request (rp_client ep) body)
            = Some (Response (Some (JObj m)))
        \<and> map_of m ''service_name'' = None"
    then have "py_getitem (JObj m) ''service_name'' = Inl KeyError" by simp
    with p5 h show "fst (run ep (JObj kvs) w) = Inl KeyError" by blast
  qed
  have p7: "\<forall>v. map_of kvs ''input'' = Some v \<and> \<not> py_truthy v \<longrightarrow>
        sent (snd (run ep (JObj kvs) w)) =
          sent w @ [deploy_request (rp_client ep) (JObj [(''input'', JObj kvs)])]"
    using sent_eq by (simp add: cfg_def)
  have p8: "sent (snd (snd (deploy svc model_config w))) =
        sent w @ [deploy_request (client svc) model_config]"
    by (rule deploy_sent)
  have p9: "\<forall>j name.
        server w (length (sent w)) (deploy_request (client svc) model_config)
          = Some (Response (Some j))
        \<and> py_getitem j ''service_name'' = Inr name \<and> hashable name \<longrightarrow>
        fst (deploy svc model_config w) = Inr ()
        \<and> fst (snd (deploy svc model_config w)) = svc\<lparr>service_name := name\<rparr>
        \<and> set_mem name (inference_services (snd (snd (deploy svc model_config w))))"
    using deploy_success [of w svc model_config] by blast
  have p10: "\<forall>j e.
        server w (length (sent w)) (deploy_request (client svc) model_config)
          = Some (Response (Some j))
        \<and> py_getitem j ''service_name'' = Inl e \<longrightarrow>
        deploy svc model_config w =
          (Inl e, svc, w\<lparr>sent := sent w @ [deploy_request (client svc) model_config]\<rparr>)
        \<and> (e = KeyError \<or> e = TypeError)"
    using deploy_no_name [of w svc model_config] py_getitem_error by blast
  show ?thesis
    by (intro conjI) (rule p1, rule p2, rule p3, rule p4, rule p5, rule p6, rule p7,
      rule p8, rule p9, rule p10)
qed

theorem run_deploys_configuration_witness:
  "sent (snd (run example_endpoint (JObj [(''model_id'', JStr ''m'')])
       (example_world
          (scripted [Some (Response (Some (JObj [(''service_name'', JStr ''svc-1'')])))]) [] [])))
     = [deploy_request example_client (JObj [(''input'', JObj [(''model_id'', JStr ''m'')])])]
   \<and> fst (run example_endpoint (JObj [(''model_id'', JStr ''m'')])
       (example_world
          (scripted [Some (Response (Some (JObj [(''service_name'', JStr ''svc-1'')])))]) [] []))
     = Inr \<lparr>client = example_client, service_name = JStr ''svc-1'', api_endpoint = JNull\<rparr>
   \<and> set_mem (JStr ''svc-1'')
       (inference_services (snd (run example_endpoint (JObj [(''model_id'', JStr ''m'')])
          (example_world
             (scripted [Some (Response (Some (JObj [(''service_name'', JStr ''svc-1'')])))])
             [] []))))
   \<and> sent (snd (run example_endpoint (JObj [(''input'', JObj [(''model_id'', JStr ''m'')])])
       (example_world
          (scripted [Some (Response (Some (JObj [(''message'', JStr ''no quota'')])))]) [] [])))
     = [deploy_request example_client (JObj [(''input'', JObj [(''model_id'', JStr ''m'')])])]
   \<and> fst (run example_endpoint (JObj [(''input'', JObj [(''model_id'', JStr ''m'')])])
       (example_world
          (scripted [Some (Response (Some (JObj [(''message'', JStr ''no quota'')])))]) [] []))
     = Inl KeyError
   \<and> inference_services
       (snd (run example_endpoint (JObj [(''input'', JObj [(''model_id'', JStr ''m'')])])
          (example_world
             (scripted [Some (Response (Some (JObj [(''message'', JStr ''no quota'')])))]) [] [])))
     = []
   \<and> sent (snd (run example_endpoint (JObj [(''input'', JNull)])
       (example_world (scripted []) [] [])))
     = [deploy_request example_client (JObj [(''input'', JObj [(''input'', JNull)])])]
   \<and> sent (snd (snd (deploy (new_InferenceService example_client)
       (JObj [(''model_id'', JStr ''m'')])
       (example_world
          (scripted [Some (Response (Some (JObj [(''service_name'', JStr ''svc-1'')])))]) [] []))))
     = [deploy_request example_client (JObj [(''model_id'', JStr ''m'')])]
   \<and> fst (snd (deploy (new_InferenceService example_client)
       (JObj [(''model_id'', JStr ''m'')])
       (example_world
          (scripted [Some (Response (Some (JObj [(''service_name'', JStr ''svc-1'')])))]) [] [])))
     = \<lparr>client = example_client, service_name = JStr ''svc-1'', api_endpoint = JNull\<rparr>
   \<and> fst (deploy (new_InferenceService example_client)
       (JObj [(''model_id'', JStr ''m'')])
       (example_world
          (scripted [Some (Response (Some (JObj [(''message'', JStr ''no quota'')])))]) [] []))
     = Inl KeyError"
proof -
  let ?k1 = "[(''model_id'', JStr ''m'')]"
  let ?k2 = "[(''input'', JObj [(''model_id'', JStr ''m'')])]"
  let ?j1 = "JObj [(''service_name'', JStr ''svc-1'')]"
  let ?j2 = "JObj [(''message'', JStr ''no quota'')]"
  let ?w1 = "example_world (scripted [Some (Response (Some ?j1))]) [] []"
  let ?w2 = "example_world (scripted [Some (Response (Some ?j2))]) [] []"
  let ?body = "JObj [(''input'', JObj [(''model_id'', JStr ''m'')])]"
  note t1 = run_deploys_configuration [where kvs = ?k1 and ep = example_endpoint and w = ?w1]
  note t2 = run_deploys_configuration [where kvs = ?k2 and ep = example_endpoint and w = ?w2]
  have c: "rp_client example_endpoint = example_client"
    by (simp add: example_endpoint_def)
  have s1: "sent (snd (run example_endpoint (JObj ?k1) ?w1)) =
              sent ?w1 @ [deploy_request (rp_client example_endpoint) ?body]"
    using t1 by simp
  have r1: "server ?w1 (length (sent ?w1)) (deploy_request (rp_client example_endpoint) ?body)
              = Some (Response (Some ?j1))"
    by (simp add: example_defs)
  have n1: "py_getitem ?j1 ''service_name'' = Inr (JStr ''svc-1'') \<and> hashable (JStr ''svc-1'')"
    by simp
  from t1 s1 r1 n1 have a1:
    "fst (run example_endpoint (JObj ?k1) ?w1) =
       Inr \<lparr>client = rp_client example_endpoint, service_name = JStr ''svc-1'',
            api_endpoint = JNull\<rparr>
     \<and> set_mem (JStr ''svc-1'') (inference_services (snd (run example_endpoint (JObj ?k1) ?w1)))"
    by blast
  have s2: "sent (snd (run example_endpoint (JObj ?k2) ?w2)) =
              sent ?w2 @ [deploy_request (rp_client example_endpoint) (JObj ?k2)]"
    using t2 by simp
  have r2: "server ?w2 (length (sent ?w2)) (deploy_request (rp_client example_endpoint) (JObj ?k2))
              = Some (Response (Some ?j2))"
    by (simp add: example_defs)
  have n2: "py_getitem ?j2 ''service_name'' = Inl KeyError"
    by simp
  from t2 s2 r2 n2 have a2:
    "fst (run example_endpoint (JObj ?k2) ?w2) = Inl KeyError
     \<and> inference_services (snd (run example_endpoint (JObj ?k2) ?w2)) = inference_services ?w2"
    by blast
  let ?w0 = "example_world (scripted []) [] []"
  let ?svc = "new_InferenceService example_client"
  note t3 = run_deploys_configuration
    [where kvs = "[(''input'', JNull)]" and ep = example_endpoint and w = ?w0]
  note t4 = run_deploys_configuration
    [where svc = ?svc and model_config = "JObj ?k1" and w = ?w1]
  note t5 = run_deploys_configuration
    [where svc = ?svc and model_config = "JObj ?k1" and w = ?w2]
  have s3: "sent (snd (run example_endpoint (JObj [(''input'', JNull)]) ?w0)) =
              sent ?w0 @ [deploy_request (rp_client example_endpoint)
                            (JObj [(''input'', JObj [(''input'', JNull)])])]"
    using t3 by simp
  have cl: "client ?svc = example_client"
    by (simp add: new_InferenceService_def)
  have s4: "sent (snd (snd (deploy ?svc (JObj ?k1) ?w1))) =
              sent ?w1 @ [deploy_request (client ?svc) (JObj ?k1)]"
    using t4 by blast
  have r4: "server ?w1 (length (sent ?w1)) (deploy_request (client ?svc) (JObj ?k1))
              = Some (Response (Some ?j1))"
    by (simp add: example_defs)
  from t4 r4 n1 have a4:
    "fst (snd (deploy ?svc (JObj ?k1) ?w1)) = ?svc\<lparr>service_name := JStr ''svc-1''\<rparr>"
    by blast
  have r5: "server ?w2 (length (sent ?w2)) (deploy_request (client ?svc) (JObj ?k1))
              = Some (Response (Some ?j2))"
    by (simp add: example_defs)
  from t5 r5 n2 have a5:
    "deploy ?svc (JObj ?k1) ?w2 =
       (Inl KeyError, ?svc, ?w2\<lparr>sent := sent ?w2 @ [deploy_request (client ?svc) (JObj ?k1)]\<rparr>)"
    by blast
  from s1 a1 s2 a2 c s3 s4 a4 a5 cl show ?thesis
    by (simp add: example_world_def new_InferenceService_def)
qed

section \<open>Wrapping the request by truth value\<close>

lemma wait_for_ready_loop_sent:
  "\<exists>xs. sent (snd (snd (wait_for_ready_loop n retry_interval svc w))) = sent w @ xs"
proof (induction n arbitrary: w)
  case 0
  then show ?case by simp
next
  case (Suc n)
  let ?req = "build_request (client svc) ''GET'' ''/job/inference'' No_kwargs"
  let ?w1 = "w\<lparr>sent := sent w @ [?req]\<rparr>"
  from Suc.IH [of "?w1\<lparr>slept := slept ?w1 @ [retry_interval]\<rparr>"]
  obtain xs where
    "sent (snd (snd (wait_for_ready_loop n retry_interval svc
             (?w1\<lparr>slept := slept ?w1 @ [retry_interval]\<rparr>)))) = sent w @ [?req] @ xs"
    by auto
  then show ?case
    by (auto simp: make_request_simp split: sum.splits option.splits)
qed

lemma wait_until_complete_sent:
  "\<exists>xs. sent (snd (snd (wait_until_complete svc w))) = sent w @ xs"
  using wait_for_ready_loop_sent [of "nat 60" 30 svc w]
  by (auto simp: wait_until_complete_def wait_for_ready_def split: prod.splits sum.splits)

lemma run_sync_unfold:
  "run_sync decode ep (JObj kvs) timeout w =
     (case create_default decode (api_key w) (endpoint_url_base w) of
        Inl e \<Rightarrow> (Inl e, w)
      | Inr cfg \<Rightarrow>
          (case deploy (new_InferenceService \<lparr>config = cfg\<rparr>)
                  (if py_truthy (case map_of kvs ''input'' of None \<Rightarrow> JNull | Some v \<Rightarrow> v)
                   then JObj kvs else JObj [(''input'', JObj kvs)]) w of
             (Inl e, svc, w1) \<Rightarrow> (Inl e, w1)
           | (Inr u, svc, w1) \<Rightarrow>
               (case wait_until_complete svc w1 of (r, svc2, w2) \<Rightarrow> (r, w2))))"
  by (simp add: run_sync_def Let_def split: option.splits)

lemma run_sync_sent:
  assumes "create_default decode (api_key w) (endpoint_url_base w) = Inr cfg"
  shows "take (Suc (length (sent w))) (sent (snd (run_sync decode ep (JObj kvs) timeout w))) =
     sent w @ [deploy_request \<lparr>config = cfg\<rparr>
                (if py_truthy (case map_of kvs ''input'' of None \<Rightarrow> JNull | Some v \<Rightarrow> v)
                 then JObj kvs else JObj [(''input'', JObj kvs)])]"
proof -
  define body where
    "body = (if py_truthy (case map_of kvs ''input'' of None \<Rightarrow> JNull | Some v \<Rightarrow> v)
             then JObj kvs else JObj [(''input'', JObj kvs)])"
  define svc0 where "svc0 = new_InferenceService \<lparr>config = cfg\<rparr>"
  obtain r svc1 w1 where d: "deploy svc0 body w = (r, svc1, w1)"
    by (cases "deploy svc0 body w") auto
  have s1: "sent w1 = sent w @ [deploy_request \<lparr>config = cfg\<rparr> body]"
    using deploy_sent [of svc0 body w] d by (simp add: svc0_def new_InferenceService_def)
  have rs: "run_sync decode ep (JObj kvs) timeout w =
        (case r of Inl e \<Rightarrow> (Inl e, w1)
         | Inr u \<Rightarrow> (case wait_until_complete svc1 w1 of (r2, svc2, w2) \<Rightarrow> (r2, w2)))"
  proof -
    have "run_sync decode ep (JObj kvs) timeout w =
        (case deploy svc0 body w of
           (Inl e, svc, w1) \<Rightarrow> (Inl e, w1)
         | (Inr u, svc, w1) \<Rightarrow>
             (case wait_until_complete svc w1 of (r, svc2, w2) \<Rightarrow> (r, w2)))"
      unfolding run_sync_unfold body_def svc0_def using assms by simp
    then show ?thesis by (simp add: d split: sum.splits)
  qed
  show ?thesis
  proof (cases r)
    case (Inl e)
    with rs s1 show ?thesis by (simp add: body_def)
  next
    case (Inr u)
    from wait_until_complete_sent [of svc1 w1] obtain xs where
      "sent (snd (snd (wait_until_complete svc1 w1))) = sent w1 @ xs" by blast
    with Inr rs s1 show ?thesis
      by (simp add: body_def split: prod.splits)
  qed
qed

text \<open>
  Claim C10: \<^verbatim>\<open>run\<close> and \<^verbatim>\<open>run_sync\<close> decide by the truth value of
  \<^verbatim>\<open>request_input.get("input")\<close>.  A dictionary whose \<^verbatim>\<open>input\<close> holds a falsy value (an
  empty dictionary, \<^verbatim>\<open>None\<close>) is posted wrapped as a whole under a new \<^verbatim>\<open>input\<close> key, like
  a dictionary without the key; only a dictionary whose \<^verbatim>\<open>input\<close> holds a truthy value
  is posted unchanged.  For \<^verbatim>\<open>run_sync\<close>, which goes on to poll, this is the first
  request it sends, with the configuration it builds itself.
\<close>

theorem run_wraps_by_truth_value:
  "(\<forall>v. map_of kvs ''input'' = Some v \<and> \<not> py_truthy v \<longrightarrow>
        sent (snd (run ep (JObj kvs) w)) =
          sent w @ [deploy_request (rp_client ep) (JObj [(''input'', JObj kvs)])])
   \<and> (map_of kvs ''input'' = None \<longrightarrow>
        sent (snd (run ep (JObj kvs) w)) =
          sent w @ [deploy_request (rp_client ep) (JObj [(''input'', JObj kvs)])])
   \<and> (\<forall>v. map_of kvs ''input'' = Some v \<and> py_truthy v \<longrightarrow>
        sent (snd (run ep (JObj kvs) w)) = sent w @ [deploy_request (rp_client ep) (JObj kvs)])
   \<and> (\<forall>cfg v. create_default decode (api_key w) (endpoint_url_base w) = Inr cfg
        \<and> map_of kvs ''input'' = Some v \<and> \<not> py_truthy v \<longrightarrow>
        take (Suc (length (sent w))) (sent (snd (run_sync decode ep (JObj kvs) timeout w))) =
          sent w @ [deploy_request \<lparr>config = cfg\<rparr> (JObj [(''input'', JObj kvs)])])
   \<and> (\<forall>cfg. create_default decode (api_key w) (endpoint_url_base w) = Inr cfg
        \<and> map_of kvs ''input'' = None \<longrightarrow>
        take (Suc (length (sent w))) (sent (snd (run_sync decode ep (JObj kvs) timeout w))) =
          sent w @ [deploy_request \<lparr>config = cfg\<rparr> (JObj [(''input'', JObj kvs)])])
   \<and> (\<forall>cfg v. create_default decode (api_key w) (endpoint_url_base w) = Inr cfg
        \<and> map_of kvs ''input'' = Some v \<and> py_truthy v \<longrightarrow>
        take (Suc (length (sent w))) (sent (snd (run_sync decode ep (JObj kvs) timeout w))) =
          sent w @ [deploy_request \<lparr>config = cfg\<rparr> (JObj kvs)])"
  using run_sent [of ep kvs w] run_sync_sent [of decode w _ ep kvs timeout]
  by (auto split: option.splits)

theorem run_wraps_by_truth_value_witness:
  "sent (snd (run example_endpoint (JObj [(''input'', JObj [])])
       (example_world (scripted []) [] [])))
     = [deploy_request example_client (JObj [(''input'', JObj [(''input'', JObj [])])])]
   \<and> sent (snd (run example_endpoint (JObj [(''input'', JNull)])
       (example_world (scripted []) [] [])))
     = [deploy_request example_client (JObj [(''input'', JObj [(''input'', JNull)])])]
   \<and> sent (snd (run example_endpoint (JObj [(''input'', JObj [(''model_id'', JStr ''m'')])])
       (example_world (scripted []) [] [])))
     = [deploy_request example_client (JObj [(''input'', JObj [(''model_id'', JStr ''m'')])])]
   \<and> take (Suc 0) (sent (snd (run_sync Some example_endpoint (JObj [(''input'', JObj [])]) 86400
       (example_world (scripted []) [] []))))
     = [deploy_request
          \<lparr>config = \<lparr>base_url = ''https://sxwl.ai'', token = KeyStr ''k'',
                      headers = [(''Accept'', ''application/json, text/plain, */*''),
                                 (''Authorization'', ''Bearer k''),
                                 (''Content-Type'', ''application/json''),
                                 (''Origin'', ''https://sxwl.ai''),
                                 (''Connection'', ''keep-alive''),
                                 (''User-Agent'', ''github-actions'')]\<rparr>\<rparr>
          (JObj [(''input'', JObj [(''input'', JObj [])])])]
   \<and> take (Suc 0) (sent (snd (run_sync Some example_endpoint
       (JObj [(''input'', JObj [(''model_id'', JStr ''m'')])]) 86400
       (example_world (scripted []) [] []))))
     = [deploy_request
          \<lparr>config = \<lparr>base_url = ''https://sxwl.ai'', token = KeyStr ''k'',
                      headers = [(''Accept'', ''application/json, text/plain, */*''),
                                 (''Authorization'', ''Bearer k''),
                                 (''Content-Type'', ''application/json''),
                                 (''Origin'', ''https://sxwl.ai''),
                                 (''Connection'', ''keep-alive''),
                                 (''User-Agent'', ''github-actions'')]\<rparr>\<rparr>
          (JObj [(''input'', JObj [(''model_id'', JStr ''m'')])])]"
proof -
  let ?w = "example_world (scripted []) [] []"
  let ?cfg = "\<lparr>base_url = ''https://sxwl.ai'', token = KeyStr ''k'',
                headers = [(''Accept'', ''application/json, text/plain, */*''),
                           (''Authorization'', ''Bearer k''),
                           (''Content-Type'', ''application/json''),
                           (''Origin'', ''https://sxwl.ai''),
                           (''Connection'', ''keep-alive''),
                           (''User-Agent'', ''github-actions'')]\<rparr>"
  have cd: "create_default Some (api_key ?w) (endpoint_url_base ?w) = Inr ?cfg"
    by (simp add: create_default_def example_world_def)
  have w: "sent ?w = []" and c: "rp_client example_endpoint = example_client"
    by (simp_all add: example_world_def example_endpoint_def)
  from cd w c
    run_wraps_by_truth_value
      [of "[(''input'', JObj [])]" example_endpoint ?w Some 86400]
    run_wraps_by_truth_value
      [of "[(''input'', JNull)]" example_endpoint ?w Some 86400]
    run_wraps_by_truth_value
      [of "[(''input'', JObj [(''model_id'', JStr ''m'')])]" example_endpoint ?w Some 86400]
  show ?thesis by simp
qed

end
